theory Spec2Isabelle
  imports Complex_Main "HOL-Library.Word" "HOL-Library.List_Lexorder" "HOL-Library.Char_ord"
begin

unbundle bit_operations_syntax

section \<open>JavaScript values shared by the services\<close>

text \<open>
  A JavaScript string is modelled as a \<^typ>\<open>string\<close>: a list of code units, restricted to
  the range 0..255 that \<^typ>\<open>char\<close> has. The default \<open>Array.prototype.sort\<close> and the
  relational operators compare strings code unit by code unit, a proper prefix first; that
  is the lexicographic order of \<^typ>\<open>string\<close> used here.

  A thrown value is always an \<open>Error\<close> object in these files (\<open>throw new Error(...)\<close>, a
  rejected \<open>fetch\<close>, a \<open>TypeError\<close> or \<open>SyntaxError\<close> of the runtime); the only
  thing the code reads from one is its \<open>message\<close>.
\<close>

datatype exn = Error (message: string) | TypeError (message: string) | SyntaxError (message: string)

text \<open>\<open>${v}\<close> in a template literal, for a string that may be \<open>undefined\<close>.\<close>

definition template_str :: "string option \<Rightarrow> string" where
  "template_str v = (case v of None \<Rightarrow> ''undefined'' | Some s \<Rightarrow> s)"

text \<open>\<open>v || d\<close> for a string \<open>v\<close> that may be \<open>undefined\<close>: the empty string is falsy too.\<close>

definition or_default :: "string option \<Rightarrow> string \<Rightarrow> string" where
  "or_default v d = (case v of None \<Rightarrow> d | Some s \<Rightarrow> if s = [] then d else s)"

text \<open>\<open>Array.prototype.join\<close> on an array of strings.\<close>

fun js_join :: "string \<Rightarrow> string list \<Rightarrow> string" where
  "js_join sep [] = []"
| "js_join sep [x] = x"
| "js_join sep (x # y # ys) = x @ sep @ js_join sep (y # ys)"

text \<open>
  \<open>[...new Set(xs)]\<close>: the elements of \<open>xs\<close> in the order of their first occurrence,
  each once (\<open>Set.prototype.add\<close> keeps an element that is already there in its place).
\<close>

definition set_add :: "'a list \<Rightarrow> 'a \<Rightarrow> 'a list" where
  "set_add acc x = (if x \<in> set acc then acc else acc @ [x])"

definition new_Set :: "'a list \<Rightarrow> 'a list" where
  "new_Set xs = foldl set_add [] xs"

section \<open>Batch transcription client (AssemblyAI service)\<close>

record DiarizedUtterance =
  speaker :: string
  "text" :: string
  start :: rat
  "end" :: rat
  confidence :: rat

datatype status = Completed | Failed

text \<open>
  \<open>status: 'completed' | 'error'\<close> is the datatype \<^typ>\<open>status\<close>, with \<open>'error'\<close> written
  \<^const>\<open>Failed\<close>; the optional field \<open>error?: string\<close> is a \<^typ>\<open>string option\<close>.
\<close>

record DiarizedTranscript =
  "text" :: string
  utterances :: "DiarizedUtterance list"
  speakers :: "string list"
  status :: status
  error :: "string option"

text \<open>
  The body of \<open>GET /api/assembly-status\<close>, which the code reads as \<open>any\<close>:
  \<open>data.status\<close>, \<open>data.text\<close>, \<open>data.utterances\<close> (\<open>null\<close> or absent is \<^const>\<open>None\<close>) and
  \<open>data.error\<close>. An utterance of the service may carry more fields than the five the code
  copies, so it is a record extension of \<^typ>\<open>DiarizedUtterance\<close>.
\<close>

record 'u job =
  job_status :: string
  job_text :: string
  job_utterances :: "'u DiarizedUtterance_scheme list option"
  job_error :: "string option"

text \<open>
  One \<open>fetch\<close> through the proxy, as far as the client looks at it:
  \<^item> \<^term>\<open>Rejected e\<close>: \<open>fetch\<close> or \<open>response.json()\<close> rejected with \<open>e\<close>;
  \<^item> \<^term>\<open>NotOk b\<close>: \<open>response.ok\<close> is false and the body's \<open>error\<close> field is \<open>b\<close>;
  \<^item> \<^term>\<open>Ok d\<close>: \<open>response.ok\<close> is true and the part of the body the caller reads is \<open>d\<close>.
\<close>

datatype 'a fetched = Rejected exn | NotOk "string option" | Ok 'a

type_synonym blob = "8 word list"

text \<open>
  The remote service behind the three proxy endpoints. \<open>assembly_status srv id n\<close> is the
  answer to the \<open>n\<close>-th status request for job \<open>id\<close>, counted from 0.
\<close>

record 'u server =
  assembly_upload :: "blob \<Rightarrow> string fetched"
  assembly_transcribe :: "string \<Rightarrow> string fetched"
  assembly_status :: "string \<Rightarrow> nat \<Rightarrow> 'u job fetched"

definition uploadAudio :: "'u server \<Rightarrow> blob \<Rightarrow> exn + string" where
  "uploadAudio srv audioBlob =
     (case assembly_upload srv audioBlob of
        Rejected e \<Rightarrow> Inl e
      | NotOk b \<Rightarrow> Inl (Error (or_default b ''Upload failed''))
      | Ok upload_url \<Rightarrow> Inr upload_url)"

definition startTranscription :: "'u server \<Rightarrow> string \<Rightarrow> exn + string" where
  "startTranscription srv audioUrl =
     (case assembly_transcribe srv audioUrl of
        Rejected e \<Rightarrow> Inl e
      | NotOk b \<Rightarrow> Inl (Error (or_default b ''Transcription start failed''))
      | Ok transcript_id \<Rightarrow> Inr transcript_id)"

text \<open>
  \<open>while (true)\<close> with no bound: the loop is a partial function, and \<^const>\<open>None\<close> is the
  poll that never settles. The state is the number \<open>n\<close> of status requests already made and
  the milliseconds \<open>waited\<close> in \<open>setTimeout(resolve, 3000)\<close> so far; a settled poll gives the
  time it waited and what it returned (\<^const>\<open>Inr\<close>) or threw (\<^const>\<open>Inl\<close>).
\<close>

partial_function (option) poll_loop ::
  "'u server \<Rightarrow> string \<Rightarrow> nat \<Rightarrow> nat \<Rightarrow> (nat \<times> (exn + 'u job)) option" where
  "poll_loop srv transcriptId n waited =
     (case assembly_status srv transcriptId n of
        Rejected e \<Rightarrow> Some (waited, Inl e)
      | NotOk b \<Rightarrow> Some (waited, Inl (Error (or_default b ''Polling failed'')))
      | Ok data \<Rightarrow>
          if job_status data = ''completed'' then Some (waited, Inr data)
          else if job_status data = ''error''
          then Some (waited, Inl (Error (''Transcription failed: '' @ template_str (job_error data))))
          else poll_loop srv transcriptId (Suc n) (waited + 3000))"

definition pollTranscription :: "'u server \<Rightarrow> string \<Rightarrow> (nat \<times> (exn + 'u job)) option" where
  "pollTranscription srv transcriptId = poll_loop srv transcriptId 0 0"

text \<open>
  A status answer on which the loop goes round again: the request succeeded and the job's
  status is neither \<open>completed\<close> nor \<open>error\<close> (\<open>queued\<close>, \<open>processing\<close>, anything else).
\<close>

fun pending :: "'u job fetched \<Rightarrow> bool" where
  "pending (Ok data) = (job_status data \<noteq> ''completed'' \<and> job_status data \<noteq> ''error'')"
| "pending (Rejected e) = False"
| "pending (NotOk b) = False"

text \<open>Step 4 of \<open>transcribeWithDiarization\<close>: the result object built from the poll's payload.\<close>

definition copy_utterance :: "'u DiarizedUtterance_scheme \<Rightarrow> DiarizedUtterance" where
  "copy_utterance u =
     \<lparr>speaker = speaker u, text = DiarizedUtterance.text u, start = start u,
      end = DiarizedUtterance.end u, confidence = confidence u\<rparr>"

definition format_results :: "'u job \<Rightarrow> DiarizedTranscript" where
  "format_results result =
     (let utterances = map copy_utterance
            (case job_utterances result of None \<Rightarrow> [] | Some us \<Rightarrow> us);
          speakers = sort (new_Set (map speaker utterances))
      in \<lparr>text = job_text result, utterances = utterances, speakers = speakers,
          status = Completed, error = None\<rparr>)"

text \<open>
  The body of the \<open>try\<close> block. The result is the list of labels given to \<open>onProgress\<close> so
  far, with the transcript returned or the exception thrown; \<^const>\<open>None\<close> when the poll
  never settles.
\<close>

definition transcribe_try ::
  "'u server \<Rightarrow> blob \<Rightarrow> (string list \<times> (exn + DiarizedTranscript)) option" where
  "transcribe_try srv audioFile =
     (let p1 = [''Uploading audio...''] in
      case uploadAudio srv audioFile of
        Inl e \<Rightarrow> Some (p1, Inl e)
      | Inr uploadUrl \<Rightarrow>
          (let p2 = p1 @ [''Starting speaker detection...''] in
           case startTranscription srv uploadUrl of
             Inl e \<Rightarrow> Some (p2, Inl e)
           | Inr transcriptId \<Rightarrow>
               (let p3 = p2 @ [''Processing audio (this may take a moment)...''] in
                case pollTranscription srv transcriptId of
                  None \<Rightarrow> None
                | Some (waited, Inl e) \<Rightarrow> Some (p3, Inl e)
                | Some (waited, Inr result) \<Rightarrow> Some (p3, Inr (format_results result)))))"

text \<open>The \<open>catch\<close> block: the object returned for a caught exception.\<close>

definition catch_result :: "exn \<Rightarrow> DiarizedTranscript" where
  "catch_result e =
     \<lparr>text = '''', utterances = [], speakers = [], status = Failed, error = Some (message e)\<rparr>"

definition transcribeWithDiarization ::
  "'u server \<Rightarrow> blob \<Rightarrow> (string list \<times> (exn + DiarizedTranscript)) option" where
  "transcribeWithDiarization srv audioFile =
     (case transcribe_try srv audioFile of
        None \<Rightarrow> None
      | Some (progress, Inl e) \<Rightarrow> Some (progress, Inr (catch_result e))
      | Some (progress, Inr t) \<Rightarrow> Some (progress, Inr t))"

definition formatDiarizedTranscript :: "DiarizedTranscript \<Rightarrow> string" where
  "formatDiarizedTranscript result =
     (if status result = Failed then ''Error: '' @ template_str (error result)
      else if length (utterances result) = 0 then DiarizedTranscript.text result
      else js_join ''\<newline>\<newline>''
             (map (\<lambda>u. ''Speaker '' @ speaker u @ '': '' @ DiarizedUtterance.text u)
                (utterances result)))"

subsection \<open>A scripted service\<close>

text \<open>
  A service whose every upload and job start succeed, and whose job answers \<open>processing\<close>
  twice and then \<open>final\<close>, used to run the workflow on a concrete input.
\<close>

definition demo_job :: "string \<Rightarrow> unit job" where
  "demo_job st =
     \<lparr>job_status = st, job_text = ''hi bye ok'',
      job_utterances = Some
        [\<lparr>speaker = ''B'', text = ''hi'', start = 0, end = 400, confidence = 1\<rparr>,
         \<lparr>speaker = ''A'', text = ''bye'', start = 500, end = 900, confidence = 1\<rparr>,
         \<lparr>speaker = ''B'', text = ''ok'', start = 950, end = 990, confidence = 1\<rparr>],
      job_error = Some ''bad audio''\<rparr>"

definition demo_server :: "string \<Rightarrow> unit server" where
  "demo_server final =
     \<lparr>assembly_upload = (\<lambda>audio. Ok ''https://cdn.example/upload/1''),
      assembly_transcribe = (\<lambda>url. Ok ''job-1''),
      assembly_status = (\<lambda>tid n. Ok (demo_job (if n < 2 then ''processing'' else final)))\<rparr>"

section \<open>Realtime transcription client\<close>

subsection \<open>Incoming socket messages\<close>

text \<open>
  What \<open>JSON.parse\<close> returns, and what reading a property of it gives (\<open>undefined\<close> for a
  property that is not there).
\<close>

datatype jsval =
    JUndefined
  | JNull
  | JBool bool
  | JNum rat
  | JStr string
  | JArr "jsval list"
  | JObj "(string \<times> jsval) list"

text \<open>JavaScript's truthiness: \<open>undefined\<close>, \<open>null\<close>, \<open>false\<close>, \<open>0\<close> and \<open>""\<close> are falsy.\<close>

fun truthy :: "jsval \<Rightarrow> bool" where
  "truthy JUndefined = False"
| "truthy JNull = False"
| "truthy (JBool b) = b"
| "truthy (JNum q) = (q \<noteq> 0)"
| "truthy (JStr s) = (s \<noteq> [])"
| "truthy (JArr xs) = True"
| "truthy (JObj kvs) = True"

text \<open>
  \<open>v.key\<close>, for the keys \<open>message_type\<close> and \<open>text\<close> that the handler reads (neither is a
  property of a prototype): a \<open>TypeError\<close> on \<open>null\<close> and \<open>undefined\<close>; the member of an
  object, the last one when \<open>JSON.parse\<close> met the key twice; \<open>undefined\<close> on a boolean, a
  number, a string and an array.
\<close>

fun get_prop :: "jsval \<Rightarrow> string \<Rightarrow> exn + jsval" where
  "get_prop JUndefined key = Inl (TypeError (''Cannot read properties of undefined (reading '' @ key @ '')''))"
| "get_prop JNull key = Inl (TypeError (''Cannot read properties of null (reading '' @ key @ '')''))"
| "get_prop (JObj kvs) key = Inr (case map_of (rev kvs) key of None \<Rightarrow> JUndefined | Some v \<Rightarrow> v)"
| "get_prop v key = Inr JUndefined"

text \<open>\<open>data.message_type === kind && data.text\<close>, as a condition.\<close>

definition transcript_of_kind :: "jsval \<Rightarrow> string \<Rightarrow> exn + bool" where
  "transcript_of_kind data kind =
     (case get_prop data ''message_type'' of
        Inl e \<Rightarrow> Inl e
      | Inr message_type \<Rightarrow>
          if message_type = JStr kind
          then (case get_prop data ''text'' of Inl e \<Rightarrow> Inl e | Inr t \<Rightarrow> Inr (truthy t))
          else Inr False)"

text \<open>\<open>onTranscript(data.text, isFinal)\<close>: the call made, as the pair of its arguments.\<close>

definition call_onTranscript :: "jsval \<Rightarrow> bool \<Rightarrow> exn + (jsval \<times> bool) option" where
  "call_onTranscript data isFinal =
     (case get_prop data ''text'' of Inl e \<Rightarrow> Inl e | Inr t \<Rightarrow> Inr (Some (t, isFinal)))"

text \<open>
  \<open>socket.onmessage\<close>. \<open>JSON.parse\<close> is the runtime's and is a parameter (\<^const>\<open>Inl\<close> is the
  \<open>SyntaxError\<close> it throws). The result is the call of \<open>onTranscript\<close> made, if any, or the
  exception that leaves the handler.
\<close>

definition onmessage ::
  "(string \<Rightarrow> exn + jsval) \<Rightarrow> string \<Rightarrow> exn + (jsval \<times> bool) option" where
  "onmessage JSON_parse event_data =
     (case JSON_parse event_data of
        Inl e \<Rightarrow> Inl e
      | Inr data \<Rightarrow>
          (case transcript_of_kind data ''FinalTranscript'' of
             Inl e \<Rightarrow> Inl e
           | Inr True \<Rightarrow> call_onTranscript data True
           | Inr False \<Rightarrow>
               (case transcript_of_kind data ''PartialTranscript'' of
                  Inl e \<Rightarrow> Inl e
                | Inr True \<Rightarrow> call_onTranscript data False
                | Inr False \<Rightarrow> Inr None)))"

text \<open>A final transcript with no text, as the service sends for silence.\<close>

definition silent_final :: jsval where
  "silent_final = JObj [(''message_type'', JStr ''FinalTranscript''), (''text'', JStr '''')]"

subsection \<open>The session and its \<open>stop\<close>\<close>

datatype ready_state = CONNECTING | OPEN | CLOSING | CLOSED

datatype context_state = Running | Closed

datatype track = Live | Ended

text \<open>The calls \<open>stop\<close> makes on the objects of the platform.\<close>

datatype call =
    Socket_send string
  | Socket_close
  | Processor_disconnect
  | Source_disconnect
  | AudioContext_close
  | Track_stop nat

text \<open>
  What the closure of \<open>startRealtimeTranscription\<close> holds: the socket's \<open>readyState\<close>, and
  the variables \<open>processor\<close>, \<open>source\<close>, \<open>audioContext\<close> and \<open>stream\<close>, each \<open>null\<close>
  (\<^const>\<open>None\<close>) until \<open>onopen\<close> has set it. A node is \<^const>\<open>True\<close> while connected; a
  stream is the list of its tracks. \<open>calls\<close> logs every platform call in order.
\<close>

record session =
  readyState :: ready_state
  processor :: "bool option"
  source :: "bool option"
  audioContext :: "context_state option"
  stream :: "track list option"
  calls :: "call list"

text \<open>
  The effect of a call that returns: \<open>close()\<close> starts the closing handshake of a socket
  that is connecting or open and does nothing otherwise; \<open>disconnect()\<close> disconnects the
  node; \<open>close()\<close> of the context closes it (on a closed context the promise it returns is
  rejected, which \<open>stop\<close> neither awaits nor sees); \<open>stop()\<close> ends a live track and does
  nothing to an ended one.
\<close>

fun effect :: "call \<Rightarrow> session \<Rightarrow> session" where
  "effect (Socket_send m) s = s"
| "effect Socket_close s =
     s\<lparr>readyState := (if readyState s = CONNECTING \<or> readyState s = OPEN then CLOSING
                        else readyState s)\<rparr>"
| "effect Processor_disconnect s = s\<lparr>processor := map_option (\<lambda>c. False) (processor s)\<rparr>"
| "effect Source_disconnect s = s\<lparr>source := map_option (\<lambda>c. False) (source s)\<rparr>"
| "effect AudioContext_close s = s\<lparr>audioContext := map_option (\<lambda>c. Closed) (audioContext s)\<rparr>"
| "effect (Track_stop i) s = s\<lparr>stream := map_option (\<lambda>ts. ts[i := Ended]) (stream s)\<rparr>"

text \<open>
  One statement of \<open>stop\<close>: the state after it and the exception it threw, if any.
  \<open>throws c\<close> is the exception with which the platform fails the call \<open>c\<close>, \<^const>\<open>None\<close>
  when the call returns. A statement after one that threw is not run.
\<close>

type_synonym statement = "session \<Rightarrow> session \<times> exn option"

definition platform_call :: "(call \<Rightarrow> exn option) \<Rightarrow> call \<Rightarrow> statement" where
  "platform_call throws c s =
     (let s' = s\<lparr>calls := calls s @ [c]\<rparr>
      in case throws c of Some e \<Rightarrow> (s', Some e) | None \<Rightarrow> (effect c s', None))"

definition skip :: statement where
  "skip s = (s, None)"

definition and_then :: "statement \<Rightarrow> statement \<Rightarrow> statement" where
  "and_then f g s = (case f s of (s', None) \<Rightarrow> g s' | (s', Some e) \<Rightarrow> (s', Some e))"

text \<open>\<open>stream.getTracks().forEach(track => track.stop())\<close>, over the tracks' indices.\<close>

fun stop_tracks :: "(call \<Rightarrow> exn option) \<Rightarrow> nat list \<Rightarrow> statement" where
  "stop_tracks throws [] = skip"
| "stop_tracks throws (i # rest) =
     and_then (platform_call throws (Track_stop i)) (stop_tracks throws rest)"

text \<open>\<open>JSON.stringify({ terminate_session: true })\<close>.\<close>

definition terminate_session :: string where
  "terminate_session = [CHR ''{'', CHR 0x22] @ ''terminate_session'' @ [CHR 0x22] @ '':true}''"

definition stop :: "(call \<Rightarrow> exn option) \<Rightarrow> statement" where
  "stop throws =
     and_then (\<lambda>s. if readyState s = OPEN
                    then platform_call throws (Socket_send terminate_session) s else skip s)
    (and_then (platform_call throws Socket_close)
    (and_then (\<lambda>s. if processor s \<noteq> None then platform_call throws Processor_disconnect s
                    else skip s)
    (and_then (\<lambda>s. if source s \<noteq> None then platform_call throws Source_disconnect s
                    else skip s)
    (and_then (\<lambda>s. if audioContext s \<noteq> None then platform_call throws AudioContext_close s
                    else skip s)
              (\<lambda>s. case stream s of
                      None \<Rightarrow> skip s
                    | Some ts \<Rightarrow> stop_tracks throws [0..<length ts] s)))))"

text \<open>The calls of one \<open>stop\<close> in which no call throws, read off the state before it.\<close>

definition stop_calls :: "session \<Rightarrow> call list" where
  "stop_calls s =
     (if readyState s = OPEN then [Socket_send terminate_session] else []) @
     [Socket_close] @
     (if processor s \<noteq> None then [Processor_disconnect] else []) @
     (if source s \<noteq> None then [Source_disconnect] else []) @
     (if audioContext s \<noteq> None then [AudioContext_close] else []) @
     (case stream s of None \<Rightarrow> [] | Some ts \<Rightarrow> map Track_stop [0..<length ts])"

text \<open>The state after a \<open>stop\<close> in which no call throws.\<close>

definition stopped :: "session \<Rightarrow> session" where
  "stopped s =
     s\<lparr>readyState := (if readyState s = CONNECTING \<or> readyState s = OPEN then CLOSING
                        else readyState s),
       processor := map_option (\<lambda>c. False) (processor s),
       source := map_option (\<lambda>c. False) (source s),
       audioContext := map_option (\<lambda>c. Closed) (audioContext s),
       stream := map_option (map (\<lambda>t. Ended)) (stream s),
       calls := calls s @ stop_calls s\<rparr>"

text \<open>A session that is streaming from a microphone with two tracks.\<close>

definition streaming_session :: session where
  "streaming_session =
     \<lparr>readyState = OPEN, processor = Some True, source = Some True,
      audioContext = Some Running, stream = Some [Live, Live], calls = []\<rparr>"

section \<open>Content transformation client (Gemini service)\<close>

subsection \<open>Tone and language instructions\<close>

text \<open>
  \<open>toneMap\<close> and \<open>languageMap\<close> are object literals, so \<open>map[key]\<close> finds an own property
  first and then a property of \<open>Object.prototype\<close>. The value read is a string of the
  literal (\<^term>\<open>Str v\<close>), a member of \<open>Object.prototype\<close> (\<^term>\<open>Proto key\<close>: a function, or
  the prototype itself for \<open>__proto__\<close>; never a string, always truthy), or \<open>undefined\<close>.
\<close>

datatype propval = Str string | Proto string | Undefined

definition Object_prototype :: "string list" where
  "Object_prototype =
     [''constructor'', ''__defineGetter__'', ''__defineSetter__'', ''hasOwnProperty'',
      ''__lookupGetter__'', ''__lookupSetter__'', ''isPrototypeOf'', ''propertyIsEnumerable'',
      ''toString'', ''valueOf'', ''__proto__'', ''toLocaleString'']"

definition record_get :: "(string \<times> string) list \<Rightarrow> string \<Rightarrow> propval" where
  "record_get m key =
     (case map_of m key of
        Some v \<Rightarrow> Str v
      | None \<Rightarrow> if key \<in> set Object_prototype then Proto key else Undefined)"

text \<open>\<open>a || b\<close> on such values.\<close>

fun js_or :: "propval \<Rightarrow> propval \<Rightarrow> propval" where
  "js_or (Str v) b = (if v = [] then b else Str v)"
| "js_or (Proto k) b = Proto k"
| "js_or Undefined b = b"

definition toneMap :: "(string \<times> string) list" where
  "toneMap =
     [(''professional'', ''Use a professional, business-appropriate tone.''),
      (''casual'', ''Use a casual, relaxed conversational tone.''),
      (''friendly'', ''Use a warm, friendly, and approachable tone.'')]"

text \<open>The two names written in their own script are given by their UTF-8 bytes.\<close>

definition languageMap :: "(string \<times> string) list" where
  "languageMap =
     [(''en'', ''Write the output in English.''),
      (''zh'', ''Write the output in Simplified Chinese ('' @
               [CHR 0xE4, CHR 0xB8, CHR 0xAD, CHR 0xE6, CHR 0x96, CHR 0x87] @ '').''),
      (''ms'', ''Write the output in Bahasa Melayu.''),
      (''ta'', ''Write the output in Tamil ('' @
               [CHR 0xE0, CHR 0xAE, CHR 0xA4, CHR 0xE0, CHR 0xAE, CHR 0xAE, CHR 0xE0, CHR 0xAE,
                CHR 0xBF, CHR 0xE0, CHR 0xAE, CHR 0xB4, CHR 0xE0, CHR 0xAF, CHR 0x8D] @ '').'')]"

record options =
  summaryLength :: "string option"
  customPrompt :: "string option"
  tone :: "string option"
  language :: "string option"
  styleGuide :: "string option"

definition toneInstruction :: "options \<Rightarrow> propval" where
  "toneInstruction opts =
     js_or (record_get toneMap (or_default (tone opts) ''professional''))
           (record_get toneMap ''professional'')"

definition languageInstruction :: "options \<Rightarrow> propval" where
  "languageInstruction opts =
     js_or (record_get languageMap (or_default (language opts) ''en''))
           (record_get languageMap ''en'')"

subsection \<open>Single-shot transcription\<close>

datatype part = InlineData string string | TextPart string

record request =
  apiKey :: string
  model :: string
  parts :: "part list"

text \<open>
  \<open>ai.models.generateContent\<close> is the provider's and is a parameter: for a request it gives
  the \<open>text\<close> of the response (\<^const>\<open>None\<close> when it is \<open>undefined\<close>) or throws.
  \<open>env_API_KEY\<close> is what \<open>getApiKey()\<close> returns.
\<close>

text \<open>The argument of \<open>generateContent\<close>, with the key given to \<open>new GoogleGenAI\<close>.\<close>

definition transcript_request ::
  "string option \<Rightarrow> string option \<Rightarrow> string \<Rightarrow> string \<Rightarrow> request" where
  "transcript_request key env_API_KEY base64Data mimeType =
     \<lparr>apiKey = or_default key (or_default env_API_KEY ''''),
      model = ''gemini-2.0-flash'',
      parts = [InlineData mimeType base64Data,
               TextPart ''Please provide a highly accurate word-for-word transcript of this audio. No summary, just text.'']\<rparr>"

definition transcribeAudioFile ::
  "(request \<Rightarrow> exn + string option) \<Rightarrow> string option \<Rightarrow> string \<Rightarrow> string \<Rightarrow> string option \<Rightarrow>
     exn + string" where
  "transcribeAudioFile generateContent env_API_KEY base64Data mimeType key =
     (case generateContent (transcript_request key env_API_KEY base64Data mimeType) of
        Inl e \<Rightarrow> Inl e
      | Inr response_text \<Rightarrow> Inr (or_default response_text ''Transcription failed.''))"

section \<open>Audio encoders\<close>

subsection \<open>Numbers\<close>

text \<open>
  A JavaScript number as far as the encoders meet it: \<open>NaN\<close>, the two infinities, or a
  finite value, an element of a \<open>Float32Array\<close> read as a double. The finite values are
  taken as rationals and the arithmetic as exact. It is exact on what the encoders compute:
  a float32 has a 24-bit significand, so its product with \<open>32767\<close> or \<open>32768\<close> has at most
  40 bits and is a double; \<open>Math.min\<close> and \<open>Math.max\<close> return one of their arguments. The
  two zeros are one value here, and they convert to the same integer.
\<close>

datatype number = NaN | NegInf | PosInf | Fin rat

fun Math_min :: "number \<Rightarrow> number \<Rightarrow> number" where
  "Math_min NaN b = NaN"
| "Math_min a NaN = NaN"
| "Math_min NegInf b = NegInf"
| "Math_min a NegInf = NegInf"
| "Math_min PosInf b = b"
| "Math_min a PosInf = a"
| "Math_min (Fin x) (Fin y) = Fin (min x y)"

fun Math_max :: "number \<Rightarrow> number \<Rightarrow> number" where
  "Math_max NaN b = NaN"
| "Math_max a NaN = NaN"
| "Math_max PosInf b = PosInf"
| "Math_max a PosInf = PosInf"
| "Math_max NegInf b = b"
| "Math_max a NegInf = a"
| "Math_max (Fin x) (Fin y) = Fin (max x y)"

text \<open>\<open>a * b\<close>: an infinity times zero is \<open>NaN\<close>, otherwise the signs multiply.\<close>

fun sign :: "number \<Rightarrow> rat" where
  "sign NaN = 0"
| "sign NegInf = - 1"
| "sign PosInf = 1"
| "sign (Fin x) = sgn x"

fun js_times :: "number \<Rightarrow> number \<Rightarrow> number" where
  "js_times NaN b = NaN"
| "js_times a NaN = NaN"
| "js_times (Fin x) (Fin y) = Fin (x * y)"
| "js_times a b =
     (if sign a * sign b = 0 then NaN else if 0 < sign a * sign b then PosInf else NegInf)"

text \<open>
  Storing a number in an \<open>Int16Array\<close> (\<open>ToInt16\<close>): \<open>NaN\<close> and the infinities become 0, a
  finite value is truncated towards zero and wraps modulo \<open>2^16\<close>.
\<close>

definition truncate_to_zero :: "rat \<Rightarrow> int" where
  "truncate_to_zero q = (if q < 0 then \<lceil>q\<rceil> else \<lfloor>q\<rfloor>)"

fun ToInt16 :: "number \<Rightarrow> 16 word" where
  "ToInt16 (Fin q) = word_of_int (truncate_to_zero q)"
| "ToInt16 x = 0"

subsection \<open>The two conversions of a sample\<close>

text \<open>\<open>int16[i] = Math.max(-1, Math.min(1, data[i])) * 32767\<close> in \<open>createPcmBlob\<close>.\<close>

definition createPcmBlob_sample :: "number \<Rightarrow> 16 word" where
  "createPcmBlob_sample x =
     ToInt16 (js_times (Math_max (Fin (- 1)) (Math_min (Fin 1) x)) (Fin 32767))"

text \<open>
  \<open>int16Data[i] = Math.max(-32768, Math.min(32767, inputData[i] * 32768))\<close> in
  \<open>processor.onaudioprocess\<close>.
\<close>

definition onaudioprocess_sample :: "number \<Rightarrow> 16 word" where
  "onaudioprocess_sample x =
     ToInt16 (Math_max (Fin (- 32768)) (Math_min (Fin 32767) (js_times x (Fin 32768))))"

subsection \<open>Bytes and base64\<close>

text \<open>
  \<open>new Uint8Array(int16.buffer)\<close>: the bytes of the samples in the platform's byte order,
  which is little-endian on the platforms browsers run on: low byte first.
\<close>

definition Uint8Array :: "16 word list \<Rightarrow> 8 word list" where
  "Uint8Array int16 = concat (map (\<lambda>w. [ucast w, ucast (drop_bit 8 w)]) int16)"

text \<open>
  The loop \<open>binary += String.fromCharCode(uint8[i])\<close>: one character per byte, appended
  one at a time.
\<close>

definition fromCharCode :: "8 word \<Rightarrow> char" where
  "fromCharCode b = char_of (unat b)"

definition binary_string :: "8 word list \<Rightarrow> string" where
  "binary_string uint8 = foldl (\<lambda>binary b. binary @ [fromCharCode b]) [] uint8"

text \<open>
  \<open>btoa\<close>: base64 with padding (RFC 4648) of a string whose characters are bytes. Every
  \<^typ>\<open>char\<close> is one, so the \<open>InvalidCharacterError\<close> of \<open>btoa\<close> cannot arise.
\<close>

definition base64_alphabet :: string where
  "base64_alphabet = ''ABCDEFGHIJKLMNOPQRSTUVWXYZabcdefghijklmnopqrstuvwxyz0123456789+/''"

definition base64_char :: "nat \<Rightarrow> char" where
  "base64_char n = base64_alphabet ! n"

fun btoa_bytes :: "nat list \<Rightarrow> string" where
  "btoa_bytes [] = []"
| "btoa_bytes [a] =
     [base64_char (a div 4), base64_char ((a mod 4) * 16), CHR ''='', CHR ''='']"
| "btoa_bytes [a, b] =
     [base64_char (a div 4), base64_char ((a mod 4) * 16 + b div 16),
      base64_char ((b mod 16) * 4), CHR ''='']"
| "btoa_bytes (a # b # c # rest) =
     [base64_char (a div 4), base64_char ((a mod 4) * 16 + b div 16),
      base64_char ((b mod 16) * 4 + c div 64), base64_char (c mod 64)] @ btoa_bytes rest"

definition btoa :: "string \<Rightarrow> string" where
  "btoa binary = btoa_bytes (map of_char binary)"

record pcm_blob =
  data :: string
  mimeType :: string

definition createPcmBlob :: "number list \<Rightarrow> pcm_blob" where
  "createPcmBlob input =
     (let int16 = map createPcmBlob_sample input;
          uint8 = Uint8Array int16;
          binary = binary_string uint8
      in \<lparr>data = btoa binary, mimeType = ''audio/pcm;rate=16000''\<rparr>)"

text \<open>
  The frame \<open>onaudioprocess\<close> sends while the socket is open:
  \<open>JSON.stringify({ audio_data: base64 })\<close>, the same bytes and base64 over its own
  conversion of the samples. No frame is sent on a socket that is not open.
\<close>

definition onaudioprocess :: "ready_state \<Rightarrow> number list \<Rightarrow> string option" where
  "onaudioprocess socket_readyState inputData =
     (if socket_readyState = OPEN
      then Some ([CHR ''{'', CHR 0x22] @ ''audio_data'' @ [CHR 0x22, CHR '':'', CHR 0x22] @
                 btoa (binary_string (Uint8Array (map onaudioprocess_sample inputData))) @
                 [CHR 0x22, CHR ''}''])
      else None)"

subsection \<open>Decoding, to state what the encoder produces\<close>

text \<open>
  The inverse of \<open>btoa\<close>, strict: groups of four characters of the alphabet, padded with
  \<open>=\<close> in the last group only. \<^const>\<open>None\<close> for any other string.
\<close>

fun index_of :: "'a \<Rightarrow> 'a list \<Rightarrow> nat option" where
  "index_of x [] = None"
| "index_of x (y # ys) = (if x = y then Some 0 else map_option Suc (index_of x ys))"

definition base64_index :: "char \<Rightarrow> nat option" where
  "base64_index c = index_of c base64_alphabet"

fun atob_bytes :: "string \<Rightarrow> nat list option" where
  "atob_bytes [] = Some []"
| "atob_bytes (c1 # c2 # c3 # c4 # rest) =
     (case (base64_index c1, base64_index c2) of
        (Some s1, Some s2) \<Rightarrow>
          if c3 = CHR ''='' \<and> c4 = CHR ''='' \<and> rest = [] then Some [s1 * 4 + s2 div 16]
          else (case base64_index c3 of
                  None \<Rightarrow> None
                | Some s3 \<Rightarrow>
                    if c4 = CHR ''='' \<and> rest = []
                    then Some [s1 * 4 + s2 div 16, (s2 mod 16) * 16 + s3 div 4]
                    else (case (base64_index c4, atob_bytes rest) of
                            (Some s4, Some bytes) \<Rightarrow>
                              Some ([s1 * 4 + s2 div 16, (s2 mod 16) * 16 + s3 div 4,
                                     (s3 mod 4) * 64 + s4] @ bytes)
                          | _ \<Rightarrow> None))
      | _ \<Rightarrow> None)"
| "atob_bytes cs = None"

definition atob :: "string \<Rightarrow> string option" where
  "atob encoded = map_option (map char_of) (atob_bytes encoded)"

text \<open>Pairs of bytes read as little-endian signed 16-bit samples.\<close>

definition int16_of_bytes :: "nat \<Rightarrow> nat \<Rightarrow> int" where
  "int16_of_bytes lo hi =
     (if lo + 256 * hi < 32768 then int (lo + 256 * hi) else int (lo + 256 * hi) - 65536)"

fun pcm16le :: "nat list \<Rightarrow> int list option" where
  "pcm16le [] = Some []"
| "pcm16le [b] = None"
| "pcm16le (lo # hi # rest) = map_option ((#) (int16_of_bytes lo hi)) (pcm16le rest)"

definition decode_pcm :: "string \<Rightarrow> int list option" where
  "decode_pcm encoded =
     (case atob encoded of None \<Rightarrow> None | Some binary \<Rightarrow> pcm16le (map of_char binary))"

text \<open>
  The value the specification compares a decoded sample with: the input sample clamped to
  \<open>[-1, 1]\<close> and scaled to the 16-bit range, that is by \<open>32767\<close>, the largest 16-bit
  value; \<open>NaN\<close> has no such value.
\<close>

fun clamped_and_scaled :: "number \<Rightarrow> rat option" where
  "clamped_and_scaled NaN = None"
| "clamped_and_scaled NegInf = Some (- 32767)"
| "clamped_and_scaled PosInf = Some 32767"
| "clamped_and_scaled (Fin q) = Some (max (- 1) (min 1 q) * 32767)"

section \<open>The batch workflow\<close>

lemma poll_loop_step:
  "pending (assembly_status srv tid n) \<Longrightarrow>
     poll_loop srv tid n waited = poll_loop srv tid (Suc n) (waited + 3000)"
  by (subst poll_loop.simps) (auto split: fetched.splits)

lemma poll_loop_skip:
  "(\<And>i. i < k \<Longrightarrow> pending (assembly_status srv tid (n + i))) \<Longrightarrow>
     poll_loop srv tid n waited = poll_loop srv tid (n + k) (waited + 3000 * k)"
proof (induction k arbitrary: n waited)
  case 0
  then show ?case by simp
next
  case (Suc k)
  have "pending (assembly_status srv tid n)" using Suc.prems [of 0] by simp
  then have "poll_loop srv tid n waited = poll_loop srv tid (Suc n) (waited + 3000)"
    by (rule poll_loop_step)
  also have "\<dots> = poll_loop srv tid (Suc n + k) (waited + 3000 + 3000 * k)"
  proof (rule Suc.IH)
    fix i assume "i < k"
    then show "pending (assembly_status srv tid (Suc n + i))"
      using Suc.prems [of "Suc i"] by simp
  qed
  finally show ?case by (simp add: add.assoc)
qed

lemma poll_loop_settles:
  assumes "poll_loop srv tid n waited = Some r"
  shows "\<exists>k. \<not> pending (assembly_status srv tid (n + k))"
proof (rule poll_loop.raw_induct
    [where P = "\<lambda>s t m w y. \<exists>k. \<not> pending (assembly_status s t (m + k))", OF _ assms])
  fix poll :: "'a server \<Rightarrow> string \<Rightarrow> nat \<Rightarrow> nat \<Rightarrow> (nat \<times> (exn + 'a job)) option"
  fix s t m w y
  assume IH: "\<And>s t m w y. poll s t m w = Some y \<Longrightarrow> \<exists>k. \<not> pending (assembly_status s t (m + k))"
  assume body: "(case assembly_status s t m of
        Rejected e \<Rightarrow> Some (w, Inl e)
      | NotOk b \<Rightarrow> Some (w, Inl (Error (or_default b ''Polling failed'')))
      | Ok payload \<Rightarrow>
          if job_status payload = ''completed'' then Some (w, Inr payload)
          else if job_status payload = ''error''
          then Some (w, Inl (Error (''Transcription failed: '' @ template_str (job_error payload))))
          else poll s t (Suc m) (w + 3000)) = Some y"
  show "\<exists>k. \<not> pending (assembly_status s t (m + k))"
  proof (cases "pending (assembly_status s t m)")
    case False
    then have "\<not> pending (assembly_status s t (m + 0))" by simp
    then show ?thesis by blast
  next
    case True
    then have "poll s t (Suc m) (w + 3000) = Some y"
      using body by (auto split: fetched.splits if_splits)
    from IH [OF this] obtain k where "\<not> pending (assembly_status s t (Suc m + k))" by blast
    then have "\<not> pending (assembly_status s t (m + Suc k))" by simp
    then show ?thesis by blast
  qed
qed

lemma poll_loop_forever:
  "(\<And>i. pending (assembly_status srv tid (n + i))) \<Longrightarrow> poll_loop srv tid n waited = None"
  using poll_loop_settles [of srv tid n waited] by (cases "poll_loop srv tid n waited") auto

lemma set_new_Set_aux: "set (foldl set_add acc xs) = set acc \<union> set xs"
  by (induction xs arbitrary: acc) (auto simp: set_add_def)

lemma distinct_new_Set_aux: "distinct acc \<Longrightarrow> distinct (foldl set_add acc xs)"
  by (induction xs arbitrary: acc) (auto simp: set_add_def)

lemma set_new_Set: "set (new_Set xs) = set xs"
  by (simp add: new_Set_def set_new_Set_aux)

lemma distinct_new_Set: "distinct (new_Set xs)"
  by (simp add: new_Set_def distinct_new_Set_aux)

lemma sort_new_Set: "sort (new_Set xs) = sorted_list_of_set (set xs)"
proof -
  have "sorted_list_of_set (set (new_Set xs)) = sort (remdups (new_Set xs))"
    by (rule sorted_list_of_set_sort_remdups)
  then show ?thesis
    by (simp add: set_new_Set distinct_remdups_id [OF distinct_new_Set])
qed

lemma pollTranscription_after:
  assumes "\<And>i. i < k \<Longrightarrow> pending (assembly_status srv tid i)"
  shows "pollTranscription srv tid = poll_loop srv tid k (3000 * k)"
  using poll_loop_skip [of k srv tid 0 0] assms by (simp add: pollTranscription_def)

lemma transcribeWithDiarization_cases:
  "transcribeWithDiarization srv a =
     (case uploadAudio srv a of
        Inl e \<Rightarrow> Some ([''Uploading audio...''], Inr (catch_result e))
      | Inr url \<Rightarrow>
          (case startTranscription srv url of
             Inl e \<Rightarrow>
               Some ([''Uploading audio...'', ''Starting speaker detection...''],
                     Inr (catch_result e))
           | Inr tid \<Rightarrow>
               (case pollTranscription srv tid of
                  None \<Rightarrow> None
                | Some (w, Inl e) \<Rightarrow>
                    Some ([''Uploading audio...'', ''Starting speaker detection...'',
                           ''Processing audio (this may take a moment)...''],
                          Inr (catch_result e))
                | Some (w, Inr result) \<Rightarrow>
                    Some ([''Uploading audio...'', ''Starting speaker detection...'',
                           ''Processing audio (this may take a moment)...''],
                          Inr (format_results result)))))"
  by (simp add: transcribeWithDiarization_def transcribe_try_def Let_def
      split: sum.splits option.splits prod.splits)

lemma catch_result_fields:
  "catch_result e =
     \<lparr>text = '''', utterances = [], speakers = [], status = Failed, error = Some (message e)\<rparr>"
  by (simp add: catch_result_def)

lemma format_results_speakers:
  "speakers (format_results r) = sorted_list_of_set (speaker ` set (utterances (format_results r)))"
  by (simp add: format_results_def Let_def sort_new_Set)

text \<open>
  Claim C5. \<open>pollTranscription\<close> asks for the job's status again and again, waiting 3000
  milliseconds after every answer that is neither \<open>completed\<close> nor \<open>error\<close>, with no bound on
  the number of rounds: for every \<open>k\<close>, after \<open>k\<close> such answers an answer \<open>completed\<close> is
  returned with its whole payload, and an answer \<open>error\<close> is thrown as
  \<open>Transcription failed: <the provider's message>\<close>, both after exactly \<open>k\<close> waits; a
  failed request is thrown at once; and the poll never settles when no terminal answer
  ever comes. For the answers \<open>processing\<close>, \<open>processing\<close>, \<open>completed\<close> it returns the
  completed payload after exactly two waits.
\<close>

theorem pollTranscription_polls:
  "((\<forall>i<k. pending (assembly_status srv tid i)) \<and>
      assembly_status srv tid k = Ok d \<and> job_status d = ''completed'' \<longrightarrow>
      pollTranscription srv tid = Some (k * 3000, Inr d)) \<and>
   ((\<forall>i<k. pending (assembly_status srv tid i)) \<and>
      assembly_status srv tid k = Ok d \<and> job_status d = ''error'' \<longrightarrow>
      pollTranscription srv tid =
        Some (k * 3000, Inl (Error (''Transcription failed: '' @ template_str (job_error d))))) \<and>
   ((\<forall>i<k. pending (assembly_status srv tid i)) \<and> assembly_status srv tid k = Rejected e \<longrightarrow>
      pollTranscription srv tid = Some (k * 3000, Inl e)) \<and>
   ((\<forall>i<k. pending (assembly_status srv tid i)) \<and> assembly_status srv tid k = NotOk b \<longrightarrow>
      pollTranscription srv tid = Some (k * 3000, Inl (Error (or_default b ''Polling failed'')))) \<and>
   ((\<forall>i. pending (assembly_status srv tid i)) \<longrightarrow> pollTranscription srv tid = None) \<and>
   (assembly_status srv tid 0 = Ok d0 \<and> job_status d0 = ''processing'' \<and>
    assembly_status srv tid 1 = Ok d1 \<and> job_status d1 = ''processing'' \<and>
    assembly_status srv tid 2 = Ok d \<and> job_status d = ''completed'' \<longrightarrow>
      pollTranscription srv tid = Some (2 * 3000, Inr d))"
proof -
  have after: "pollTranscription srv tid = poll_loop srv tid k (k * 3000)"
    if "\<forall>i<k. pending (assembly_status srv tid i)"
    using pollTranscription_after [of k srv tid] that by (simp add: mult.commute)
  have forever: "pollTranscription srv tid = None"
    if "\<forall>i. pending (assembly_status srv tid i)"
    unfolding pollTranscription_def using that by (intro poll_loop_forever) simp
  have three: "pollTranscription srv tid = Some (2 * 3000, Inr d)"
    if "assembly_status srv tid 0 = Ok d0" "job_status d0 = ''processing''"
      "assembly_status srv tid 1 = Ok d1" "job_status d1 = ''processing''"
      "assembly_status srv tid 2 = Ok d" "job_status d = ''completed''"
  proof -
    have "pending (assembly_status srv tid i)" if "i < 2" for i
    proof -
      from that have "i = 0 \<or> i = 1" by auto
      then show ?thesis using \<open>assembly_status srv tid 0 = Ok d0\<close> \<open>job_status d0 = ''processing''\<close>
          \<open>assembly_status srv tid 1 = Ok d1\<close> \<open>job_status d1 = ''processing''\<close> by auto
    qed
    then have "pollTranscription srv tid = poll_loop srv tid 2 (3000 * 2)"
      by (rule pollTranscription_after)
    also have "\<dots> = Some (2 * 3000, Inr d)"
      using that(5,6) by (subst poll_loop.simps) simp
    finally show ?thesis .
  qed
  have settled: "pollTranscription srv tid = Some (k * 3000, r)"
    if "\<forall>i<k. pending (assembly_status srv tid i)"
      and "poll_loop srv tid k (k * 3000) = Some (k * 3000, r)" for r
    using after [OF that(1)] that(2) by simp
  have 1: "poll_loop srv tid k w = Some (w, Inr d)"
    if "assembly_status srv tid k = Ok d" "job_status d = ''completed''" for w
    using that by (subst poll_loop.simps) simp
  have 2: "poll_loop srv tid k w =
      Some (w, Inl (Error (''Transcription failed: '' @ template_str (job_error d))))"
    if "assembly_status srv tid k = Ok d" "job_status d = ''error''" for w
    using that by (subst poll_loop.simps) simp
  have 3: "poll_loop srv tid k w = Some (w, Inl e)"
    if "assembly_status srv tid k = Rejected e" for w
    using that by (subst poll_loop.simps) simp
  have 4: "poll_loop srv tid k w = Some (w, Inl (Error (or_default b ''Polling failed'')))"
    if "assembly_status srv tid k = NotOk b" for w
    using that by (subst poll_loop.simps) simp
  show ?thesis
    using settled 1 2 3 4 forever three by blast
qed

theorem pollTranscription_polls_witness:
  "pollTranscription (demo_server ''completed'') ''job-1'' = Some (6000, Inr (demo_job ''completed'')) \<and>
   pollTranscription (demo_server ''error'') ''job-1'' =
     Some (6000, Inl (Error ''Transcription failed: bad audio'')) \<and>
   pollTranscription
     ((demo_server ''completed'')\<lparr>assembly_status := (\<lambda>tid n. Rejected (TypeError ''Failed to fetch''))\<rparr>)
     ''job-1'' = Some (0, Inl (TypeError ''Failed to fetch'')) \<and>
   pollTranscription
     ((demo_server ''completed'')\<lparr>assembly_status := (\<lambda>tid n. NotOk None)\<rparr>)
     ''job-1'' = Some (0, Inl (Error ''Polling failed'')) \<and>
   pollTranscription (demo_server ''processing'') ''job-1'' = None"
proof -
  have a: "pollTranscription (demo_server ''completed'') ''job-1'' =
      Some (6000, Inr (demo_job ''completed''))"
    using pollTranscription_polls [where srv = "demo_server ''completed''" and tid = "''job-1''"
        and d = "demo_job ''completed''" and ?d0.0 = "demo_job ''processing''"
        and ?d1.0 = "demo_job ''processing''"]
    by (simp add: demo_server_def demo_job_def)
  have p: "\<forall>i<2. pending (assembly_status (demo_server ''error'') ''job-1'' i)"
    by (simp add: demo_server_def demo_job_def)
  have b: "pollTranscription (demo_server ''error'') ''job-1'' =
      Some (6000, Inl (Error ''Transcription failed: bad audio''))"
    using p pollTranscription_polls [where srv = "demo_server ''error''" and tid = "''job-1''"
        and k = 2 and d = "demo_job ''error''"]
    by (simp add: demo_server_def demo_job_def template_str_def)
  have c: "pollTranscription
     ((demo_server ''completed'')\<lparr>assembly_status := (\<lambda>tid n. Rejected (TypeError ''Failed to fetch''))\<rparr>)
     ''job-1'' = Some (0, Inl (TypeError ''Failed to fetch''))"
    using pollTranscription_polls [where
        srv = "(demo_server ''completed'')\<lparr>assembly_status := (\<lambda>tid n. Rejected (TypeError ''Failed to fetch''))\<rparr>"
        and tid = "''job-1''" and k = 0 and e = "TypeError ''Failed to fetch''"]
    by simp
  have d: "pollTranscription
     ((demo_server ''completed'')\<lparr>assembly_status := (\<lambda>tid n. NotOk None)\<rparr>)
     ''job-1'' = Some (0, Inl (Error ''Polling failed''))"
    using pollTranscription_polls [where
        srv = "(demo_server ''completed'')\<lparr>assembly_status := (\<lambda>tid n. NotOk None)\<rparr>"
        and tid = "''job-1''" and k = 0 and b = None]
    by (simp add: or_default_def)
  have e: "pollTranscription (demo_server ''processing'') ''job-1'' = None"
    using pollTranscription_polls [where srv = "demo_server ''processing''" and tid = "''job-1''"]
    by (simp add: demo_server_def demo_job_def)
  show ?thesis using a b c d e by simp
qed

text \<open>
  Claim C1. \<open>transcribeWithDiarization\<close> never throws. When the upload, the start of the job
  or the poll throws \<open>e\<close>, it resolves with the transcript in error status whose \<open>error\<close>
  field is the message of \<open>e\<close> (and whose text, utterances and speakers are empty). In
  particular, when the poll sees the status \<open>error\<close> after any number of unfinished answers,
  it resolves with error status and the message \<open>Transcription failed: ...\<close>.
\<close>

theorem transcribeWithDiarization_recovers:
  "transcribeWithDiarization srv a \<noteq> Some (p, Inl x) \<and>
   (uploadAudio srv a = Inl e \<longrightarrow>
      transcribeWithDiarization srv a =
        Some ([''Uploading audio...''],
              Inr \<lparr>text = '''', utterances = [], speakers = [], status = Failed,
                   error = Some (message e)\<rparr>)) \<and>
   (uploadAudio srv a = Inr url \<and> startTranscription srv url = Inl e \<longrightarrow>
      transcribeWithDiarization srv a =
        Some ([''Uploading audio...'', ''Starting speaker detection...''],
              Inr \<lparr>text = '''', utterances = [], speakers = [], status = Failed,
                   error = Some (message e)\<rparr>)) \<and>
   (uploadAudio srv a = Inr url \<and> startTranscription srv url = Inr tid \<and>
    pollTranscription srv tid = Some (w, Inl e) \<longrightarrow>
      transcribeWithDiarization srv a =
        Some ([''Uploading audio...'', ''Starting speaker detection...'',
               ''Processing audio (this may take a moment)...''],
              Inr \<lparr>text = '''', utterances = [], speakers = [], status = Failed,
                   error = Some (message e)\<rparr>)) \<and>
   (uploadAudio srv a = Inr url \<and> startTranscription srv url = Inr tid \<and>
    (\<forall>i<k. pending (assembly_status srv tid i)) \<and>
    assembly_status srv tid k = Ok d \<and> job_status d = ''error'' \<longrightarrow>
      transcribeWithDiarization srv a =
        Some ([''Uploading audio...'', ''Starting speaker detection...'',
               ''Processing audio (this may take a moment)...''],
              Inr \<lparr>text = '''', utterances = [], speakers = [], status = Failed,
                   error = Some (''Transcription failed: '' @ template_str (job_error d))\<rparr>))"
proof -
  have never: "transcribeWithDiarization srv a \<noteq> Some (p, Inl x)"
    by (simp add: transcribeWithDiarization_def split: option.splits prod.splits sum.splits)
  have up: "transcribeWithDiarization srv a = Some ([''Uploading audio...''], Inr (catch_result e))"
    if "uploadAudio srv a = Inl e"
    using that by (simp add: transcribeWithDiarization_cases)
  have st: "transcribeWithDiarization srv a =
      Some ([''Uploading audio...'', ''Starting speaker detection...''], Inr (catch_result e))"
    if "uploadAudio srv a = Inr url" "startTranscription srv url = Inl e"
    using that by (simp add: transcribeWithDiarization_cases)
  have po: "transcribeWithDiarization srv a =
      Some ([''Uploading audio...'', ''Starting speaker detection...'',
             ''Processing audio (this may take a moment)...''], Inr (catch_result e'))"
    if "uploadAudio srv a = Inr url" "startTranscription srv url = Inr tid"
      "pollTranscription srv tid = Some (w', Inl e')" for w' e'
    using that by (simp add: transcribeWithDiarization_cases)
  have er: "pollTranscription srv tid =
      Some (3000 * k, Inl (Error (''Transcription failed: '' @ template_str (job_error d))))"
    if "\<forall>i<k. pending (assembly_status srv tid i)"
      "assembly_status srv tid k = Ok d" "job_status d = ''error''"
  proof -
    have "pollTranscription srv tid = poll_loop srv tid k (3000 * k)"
      using that(1) by (intro pollTranscription_after) simp
    also have "\<dots> = Some (3000 * k, Inl (Error (''Transcription failed: '' @ template_str (job_error d))))"
      using that(2,3) by (subst poll_loop.simps) simp
    finally show ?thesis .
  qed
  have c2: "uploadAudio srv a = Inl e \<longrightarrow>
      transcribeWithDiarization srv a =
        Some ([''Uploading audio...''],
              Inr \<lparr>text = '''', utterances = [], speakers = [], status = Failed,
                   error = Some (message e)\<rparr>)"
    using up by (simp add: catch_result_fields)
  have c3: "uploadAudio srv a = Inr url \<and> startTranscription srv url = Inl e \<longrightarrow>
      transcribeWithDiarization srv a =
        Some ([''Uploading audio...'', ''Starting speaker detection...''],
              Inr \<lparr>text = '''', utterances = [], speakers = [], status = Failed,
                   error = Some (message e)\<rparr>)"
    using st by (simp add: catch_result_fields)
  have c4: "uploadAudio srv a = Inr url \<and> startTranscription srv url = Inr tid \<and>
    pollTranscription srv tid = Some (w, Inl e) \<longrightarrow>
      transcribeWithDiarization srv a =
        Some ([''Uploading audio...'', ''Starting speaker detection...'',
               ''Processing audio (this may take a moment)...''],
              Inr \<lparr>text = '''', utterances = [], speakers = [], status = Failed,
                   error = Some (message e)\<rparr>)"
    using po [of w e] by (simp add: catch_result_fields)
  have c5: "uploadAudio srv a = Inr url \<and> startTranscription srv url = Inr tid \<and>
    (\<forall>i<k. pending (assembly_status srv tid i)) \<and>
    assembly_status srv tid k = Ok d \<and> job_status d = ''error'' \<longrightarrow>
      transcribeWithDiarization srv a =
        Some ([''Uploading audio...'', ''Starting speaker detection...'',
               ''Processing audio (this may take a moment)...''],
              Inr \<lparr>text = '''', utterances = [], speakers = [], status = Failed,
                   error = Some (''Transcription failed: '' @ template_str (job_error d))\<rparr>)"
  proof
    assume h: "uploadAudio srv a = Inr url \<and> startTranscription srv url = Inr tid \<and>
      (\<forall>i<k. pending (assembly_status srv tid i)) \<and>
      assembly_status srv tid k = Ok d \<and> job_status d = ''error''"
    then have "pollTranscription srv tid =
        Some (3000 * k, Inl (Error (''Transcription failed: '' @ template_str (job_error d))))"
      using er by blast
    with h show "transcribeWithDiarization srv a =
        Some ([''Uploading audio...'', ''Starting speaker detection...'',
               ''Processing audio (this may take a moment)...''],
              Inr \<lparr>text = '''', utterances = [], speakers = [], status = Failed,
                   error = Some (''Transcription failed: '' @ template_str (job_error d))\<rparr>)"
      using po [of "3000 * k" "Error (''Transcription failed: '' @ template_str (job_error d))"]
      by (simp add: catch_result_fields)
  qed
  show ?thesis
    by (intro conjI never c2 c3 c4 c5)
qed

theorem transcribeWithDiarization_recovers_witness:
  "transcribeWithDiarization (demo_server ''error'') [1, 2, 3] =
     Some ([''Uploading audio...'', ''Starting speaker detection...'',
            ''Processing audio (this may take a moment)...''],
           Inr \<lparr>text = '''', utterances = [], speakers = [], status = Failed,
                error = Some ''Transcription failed: bad audio''\<rparr>) \<and>
   transcribeWithDiarization
     ((demo_server ''completed'')\<lparr>assembly_upload := (\<lambda>audio. NotOk None)\<rparr>) [1, 2, 3] =
     Some ([''Uploading audio...''],
           Inr \<lparr>text = '''', utterances = [], speakers = [], status = Failed,
                error = Some ''Upload failed''\<rparr>) \<and>
   transcribeWithDiarization
     ((demo_server ''completed'')\<lparr>assembly_transcribe := (\<lambda>url. NotOk (Some ''quota exceeded''))\<rparr>)
     [1, 2, 3] =
     Some ([''Uploading audio...'', ''Starting speaker detection...''],
           Inr \<lparr>text = '''', utterances = [], speakers = [], status = Failed,
                error = Some ''quota exceeded''\<rparr>) \<and>
   transcribeWithDiarization
     ((demo_server ''completed'')\<lparr>assembly_status := (\<lambda>tid n. Rejected (TypeError ''Failed to fetch''))\<rparr>)
     [1, 2, 3] =
     Some ([''Uploading audio...'', ''Starting speaker detection...'',
            ''Processing audio (this may take a moment)...''],
           Inr \<lparr>text = '''', utterances = [], speakers = [], status = Failed,
                error = Some ''Failed to fetch''\<rparr>)"
proof -
  have p: "\<forall>i<2. pending (assembly_status (demo_server ''error'') ''job-1'' i)"
    by (simp add: demo_server_def demo_job_def)
  have a: "transcribeWithDiarization (demo_server ''error'') [1, 2, 3] =
     Some ([''Uploading audio...'', ''Starting speaker detection...'',
            ''Processing audio (this may take a moment)...''],
           Inr \<lparr>text = '''', utterances = [], speakers = [], status = Failed,
                error = Some ''Transcription failed: bad audio''\<rparr>)"
    using p transcribeWithDiarization_recovers [where srv = "demo_server ''error''"
        and a = "[1, 2, 3]" and url = "''https://cdn.example/upload/1''" and tid = "''job-1''"
        and k = 2 and d = "demo_job ''error''"]
    by (simp add: demo_server_def demo_job_def template_str_def uploadAudio_def
        startTranscription_def)
  have b: "transcribeWithDiarization
     ((demo_server ''completed'')\<lparr>assembly_upload := (\<lambda>audio. NotOk None)\<rparr>) [1, 2, 3] =
     Some ([''Uploading audio...''],
           Inr \<lparr>text = '''', utterances = [], speakers = [], status = Failed,
                error = Some ''Upload failed''\<rparr>)"
    using transcribeWithDiarization_recovers [where
        srv = "(demo_server ''completed'')\<lparr>assembly_upload := (\<lambda>audio. NotOk None)\<rparr>"
        and a = "[1, 2, 3]" and e = "Error ''Upload failed''"]
    by (simp add: demo_server_def uploadAudio_def or_default_def)
  have c: "transcribeWithDiarization
     ((demo_server ''completed'')\<lparr>assembly_transcribe := (\<lambda>url. NotOk (Some ''quota exceeded''))\<rparr>)
     [1, 2, 3] =
     Some ([''Uploading audio...'', ''Starting speaker detection...''],
           Inr \<lparr>text = '''', utterances = [], speakers = [], status = Failed,
                error = Some ''quota exceeded''\<rparr>)"
    using transcribeWithDiarization_recovers [where
        srv = "(demo_server ''completed'')\<lparr>assembly_transcribe := (\<lambda>url. NotOk (Some ''quota exceeded''))\<rparr>"
        and a = "[1, 2, 3]" and url = "''https://cdn.example/upload/1''"
        and e = "Error ''quota exceeded''"]
    by (simp add: demo_server_def uploadAudio_def startTranscription_def or_default_def)
  have poll: "pollTranscription
     ((demo_server ''completed'')\<lparr>assembly_status := (\<lambda>tid n. Rejected (TypeError ''Failed to fetch''))\<rparr>)
     ''job-1'' = Some (0, Inl (TypeError ''Failed to fetch''))"
    unfolding pollTranscription_def by (subst poll_loop.simps) simp
  have d: "transcribeWithDiarization
     ((demo_server ''completed'')\<lparr>assembly_status := (\<lambda>tid n. Rejected (TypeError ''Failed to fetch''))\<rparr>)
     [1, 2, 3] =
     Some ([''Uploading audio...'', ''Starting speaker detection...'',
            ''Processing audio (this may take a moment)...''],
           Inr \<lparr>text = '''', utterances = [], speakers = [], status = Failed,
                error = Some ''Failed to fetch''\<rparr>)"
    using poll transcribeWithDiarization_recovers [where
        srv = "(demo_server ''completed'')\<lparr>assembly_status := (\<lambda>tid n. Rejected (TypeError ''Failed to fetch''))\<rparr>"
        and a = "[1, 2, 3]" and url = "''https://cdn.example/upload/1''" and tid = "''job-1''"
        and w = 0 and e = "TypeError ''Failed to fetch''"]
    by (simp add: demo_server_def uploadAudio_def startTranscription_def)
  show ?thesis using a b c d by simp
qed

text \<open>
  Claim C3. In every transcript that \<open>transcribeWithDiarization\<close> returns with status
  \<open>completed\<close>, \<open>speakers\<close> is the sorted list, without repetition, of the speaker labels
  of its utterances, and the utterances are those of the poll's payload (or none, when the
  payload has none), copied in the order of the payload.
\<close>

theorem completed_transcript_speakers:
  assumes "transcribeWithDiarization srv a = Some (p, Inr t)" and "status t = Completed"
  shows "speakers t = sorted_list_of_set (speaker ` set (utterances t)) \<and>
         sorted (speakers t) \<and> distinct (speakers t) \<and>
         set (speakers t) = speaker ` set (utterances t) \<and>
         (\<exists>url tid w result.
            uploadAudio srv a = Inr url \<and> startTranscription srv url = Inr tid \<and>
            pollTranscription srv tid = Some (w, Inr result) \<and>
            utterances t =
              map copy_utterance (case job_utterances result of None \<Rightarrow> [] | Some us \<Rightarrow> us))"
proof -
  have nf: "status (catch_result e) \<noteq> Completed" for e
    by (simp add: catch_result_def)
  from assms obtain url tid w result where
    stages: "uploadAudio srv a = Inr url" "startTranscription srv url = Inr tid"
      "pollTranscription srv tid = Some (w, Inr result)"
    and t: "t = format_results result"
    using nf by (auto simp: transcribeWithDiarization_cases split: sum.splits option.splits)
  have sp: "speakers t = sorted_list_of_set (speaker ` set (utterances t))"
    unfolding t by (rule format_results_speakers)
  have fin: "finite (speaker ` set (utterances t))" by simp
  have us: "utterances t =
      map copy_utterance (case job_utterances result of None \<Rightarrow> [] | Some us \<Rightarrow> us)"
    by (simp add: t format_results_def Let_def)
  show ?thesis
    using stages us fin by (auto simp: sp simp del: set_map)
qed

theorem completed_transcript_speakers_witness:
  "speakers (format_results (demo_job ''completed'')) = [''A'', ''B''] \<and>
   map speaker (utterances (format_results (demo_job ''completed''))) = [''B'', ''A'', ''B'']"
proof -
  have run: "transcribeWithDiarization (demo_server ''completed'') [1, 2, 3] =
      Some ([''Uploading audio...'', ''Starting speaker detection...'',
             ''Processing audio (this may take a moment)...''],
            Inr (format_results (demo_job ''completed'')))"
  proof -
    have "pollTranscription (demo_server ''completed'') ''job-1'' =
        poll_loop (demo_server ''completed'') ''job-1'' 2 (3000 * 2)"
      by (rule pollTranscription_after) (simp add: demo_server_def demo_job_def)
    also have "\<dots> = Some (6000, Inr (demo_job ''completed''))"
      by (subst poll_loop.simps) (simp add: demo_server_def demo_job_def)
    finally show ?thesis
      by (simp add: transcribeWithDiarization_cases uploadAudio_def startTranscription_def
          demo_server_def)
  qed
  have st: "status (format_results (demo_job ''completed'')) = Completed"
    by (simp add: format_results_def Let_def)
  have us: "map speaker (utterances (format_results (demo_job ''completed''))) = [''B'', ''A'', ''B'']"
    by (simp add: format_results_def Let_def demo_job_def copy_utterance_def)
  have "speakers (format_results (demo_job ''completed'')) =
      sorted_list_of_set (speaker ` set (utterances (format_results (demo_job ''completed''))))"
    using completed_transcript_speakers [OF run st] by simp
  also have "\<dots> = sorted_list_of_set (set [''B'', ''A'', ''B''])"
    using us by (metis set_map)
  also have "\<dots> = [''A'', ''B'']"
    by (subst sorted_list_of_set_sort_remdups) simp
  finally show ?thesis using us by simp
qed

section \<open>Rendering a transcript\<close>

text \<open>
  Claim C4. \<open>formatDiarizedTranscript\<close> renders a transcript in error status as its error
  message, after the fixed label \<open>Error: \<close>; a completed transcript with no utterance as
  exactly its raw full text; and any other transcript as the lines
  \<open>Speaker <label>: <text>\<close>, one per utterance in the utterances' order, joined by two
  newlines. The transcript with the utterances A: hi and B: bye is rendered as
  \<open>Speaker A: hi\<close>, two newlines, \<open>Speaker B: bye\<close>.
\<close>

theorem formatDiarizedTranscript_renders:
  "(status t = Failed \<longrightarrow>
      formatDiarizedTranscript t = ''Error: '' @ template_str (error t)) \<and>
   (status t = Failed \<and> error t = Some msg \<longrightarrow>
      formatDiarizedTranscript t = ''Error: '' @ msg) \<and>
   (status t = Completed \<and> utterances t = [] \<longrightarrow>
      formatDiarizedTranscript t = DiarizedTranscript.text t) \<and>
   (status t = Completed \<and> utterances t \<noteq> [] \<longrightarrow>
      formatDiarizedTranscript t =
        js_join ''\<newline>\<newline>''
          (map (\<lambda>u. ''Speaker '' @ speaker u @ '': '' @ DiarizedUtterance.text u) (utterances t))) \<and>
   (status t = Completed \<and>
    map (\<lambda>u. (speaker u, DiarizedUtterance.text u)) (utterances t) = [(''A'', ''hi''), (''B'', ''bye'')] \<longrightarrow>
      formatDiarizedTranscript t = ''Speaker A: hi\<newline>\<newline>Speaker B: bye'')"
proof -
  have two: "formatDiarizedTranscript t = ''Speaker A: hi\<newline>\<newline>Speaker B: bye''"
    if c: "status t = Completed"
      and m: "map (\<lambda>u. (speaker u, DiarizedUtterance.text u)) (utterances t) = [(''A'', ''hi''), (''B'', ''bye'')]"
  proof -
    from m obtain u1 u2 where us: "utterances t = [u1, u2]"
      and u1: "speaker u1 = ''A''" "DiarizedUtterance.text u1 = ''hi''"
      and u2: "speaker u2 = ''B''" "DiarizedUtterance.text u2 = ''bye''"
      by (auto simp: map_eq_Cons_conv)
    show ?thesis
      using c by (simp add: formatDiarizedTranscript_def us u1 u2)
  qed
  show ?thesis
    using two by (simp add: formatDiarizedTranscript_def template_str_def)
qed

theorem formatDiarizedTranscript_renders_witness:
  "formatDiarizedTranscript
     \<lparr>text = ''hi bye'',
      utterances = [\<lparr>speaker = ''A'', text = ''hi'', start = 0, end = 400, confidence = 1\<rparr>,
                    \<lparr>speaker = ''B'', text = ''bye'', start = 500, end = 900, confidence = 1\<rparr>],
      speakers = [''A'', ''B''], status = Completed, error = None\<rparr>
     = ''Speaker A: hi\<newline>\<newline>Speaker B: bye'' \<and>
   formatDiarizedTranscript
     \<lparr>text = ''raw full text'', utterances = [], speakers = [], status = Completed, error = None\<rparr>
     = ''raw full text'' \<and>
   formatDiarizedTranscript
     \<lparr>text = '''', utterances = [], speakers = [], status = Failed, error = Some ''Upload failed''\<rparr>
     = ''Error: Upload failed''"
proof -
  let ?t2 = "\<lparr>text = ''hi bye'',
      utterances = [\<lparr>speaker = ''A'', text = ''hi'', start = 0, end = 400, confidence = 1\<rparr>,
                    \<lparr>speaker = ''B'', text = ''bye'', start = 500, end = 900, confidence = 1\<rparr>],
      speakers = [''A'', ''B''], status = Completed, error = None\<rparr>"
  let ?t0 = "\<lparr>text = ''raw full text'', utterances = [], speakers = [], status = Completed,
      error = None :: string option\<rparr>"
  let ?te = "\<lparr>text = '''', utterances = [], speakers = [], status = Failed,
      error = Some ''Upload failed''\<rparr>"
  have a: "formatDiarizedTranscript ?t2 = ''Speaker A: hi\<newline>\<newline>Speaker B: bye''"
    using formatDiarizedTranscript_renders [of ?t2] by simp
  have b: "formatDiarizedTranscript ?t0 = ''raw full text''"
    using formatDiarizedTranscript_renders [of ?t0] by simp
  have c: "formatDiarizedTranscript ?te = ''Error: Upload failed''"
    using formatDiarizedTranscript_renders [of ?te "''Upload failed''"]
    by (simp add: template_str_def)
  show ?thesis using a b c by simp
qed

section \<open>The realtime client\<close>

lemma transcript_of_kind_JObj:
  "transcript_of_kind (JObj kvs) kind =
     Inr (map_of (rev kvs) ''message_type'' = Some (JStr kind) \<and>
          truthy (case map_of (rev kvs) ''text'' of None \<Rightarrow> JUndefined | Some v \<Rightarrow> v))"
  by (auto simp: transcript_of_kind_def split: option.splits)

lemma transcript_of_kind_other:
  "d \<noteq> JNull \<Longrightarrow> d \<noteq> JUndefined \<Longrightarrow> (\<And>kvs. d \<noteq> JObj kvs) \<Longrightarrow>
     transcript_of_kind d kind = Inr False"
  by (cases d) (auto simp: transcript_of_kind_def)

text \<open>
  Claim C7, as the handler has it. For a message that \<open>JSON.parse\<close> reads as an object:
  when its \<open>message_type\<close> is \<open>FinalTranscript\<close> and its \<open>text\<close> is truthy (a string that
  is not empty), \<open>onTranscript\<close> is called with that text and \<open>isFinal = true\<close>; when its
  \<open>message_type\<close> is \<open>PartialTranscript\<close> and its \<open>text\<close> is truthy, with that text and
  \<open>isFinal = false\<close>; every other object is ignored, a final or partial transcript whose
  text is empty or missing included. A message read as a boolean, a number, a string or an
  array is ignored as well. Nothing is thrown in any of these cases.
\<close>

theorem onmessage_dispatch:
  "(JSON_parse ev = Inr (JObj kvs) \<longrightarrow>
      onmessage JSON_parse ev =
        (let t = (case map_of (rev kvs) ''text'' of None \<Rightarrow> JUndefined | Some v \<Rightarrow> v) in
         if map_of (rev kvs) ''message_type'' = Some (JStr ''FinalTranscript'') \<and> truthy t
         then Inr (Some (t, True))
         else if map_of (rev kvs) ''message_type'' = Some (JStr ''PartialTranscript'') \<and> truthy t
         then Inr (Some (t, False))
         else Inr None)) \<and>
   (JSON_parse ev = Inr (JBool b) \<longrightarrow> onmessage JSON_parse ev = Inr None) \<and>
   (JSON_parse ev = Inr (JNum q) \<longrightarrow> onmessage JSON_parse ev = Inr None) \<and>
   (JSON_parse ev = Inr (JStr s) \<longrightarrow> onmessage JSON_parse ev = Inr None) \<and>
   (JSON_parse ev = Inr (JArr xs) \<longrightarrow> onmessage JSON_parse ev = Inr None)"
proof -
  have obj: "onmessage JSON_parse ev =
        (let t = (case map_of (rev kvs) ''text'' of None \<Rightarrow> JUndefined | Some v \<Rightarrow> v) in
         if map_of (rev kvs) ''message_type'' = Some (JStr ''FinalTranscript'') \<and> truthy t
         then Inr (Some (t, True))
         else if map_of (rev kvs) ''message_type'' = Some (JStr ''PartialTranscript'') \<and> truthy t
         then Inr (Some (t, False))
         else Inr None)"
    if "JSON_parse ev = Inr (JObj kvs)"
    using that
    by (auto simp: onmessage_def transcript_of_kind_JObj call_onTranscript_def Let_def
        split: bool.splits)
  have other: "onmessage JSON_parse ev = Inr None"
    if "JSON_parse ev = Inr d" "d \<noteq> JNull" "d \<noteq> JUndefined" "\<And>kvs. d \<noteq> JObj kvs" for d
    using that by (simp add: onmessage_def transcript_of_kind_other)
  show ?thesis
    using obj other [of "JBool b"] other [of "JNum q"] other [of "JStr s"] other [of "JArr xs"]
    by simp
qed

theorem onmessage_dispatch_witness:
  "onmessage (\<lambda>ev. Inr (JObj [(''message_type'', JStr ''FinalTranscript''), (''text'', JStr ''hello'')]))
     ''frame 1'' = Inr (Some (JStr ''hello'', True)) \<and>
   onmessage (\<lambda>ev. Inr (JObj [(''message_type'', JStr ''PartialTranscript''), (''text'', JStr ''hel'')]))
     ''frame 2'' = Inr (Some (JStr ''hel'', False)) \<and>
   onmessage (\<lambda>ev. Inr (JObj [(''message_type'', JStr ''SessionBegins'')])) ''frame 3'' = Inr None \<and>
   onmessage (\<lambda>ev. Inr (JNum 7)) ''7'' = Inr None \<and>
   onmessage (\<lambda>ev. Inr (JBool True)) ''true'' = Inr None \<and>
   onmessage (\<lambda>ev. Inr (JStr ''pong'')) ''pong, quoted'' = Inr None \<and>
   onmessage (\<lambda>ev. Inr (JArr [])) ''[]'' = Inr None"
proof -
  have a: "onmessage (\<lambda>ev. Inr (JObj [(''message_type'', JStr ''FinalTranscript''), (''text'', JStr ''hello'')]))
     ''frame 1'' = Inr (Some (JStr ''hello'', True))"
    using onmessage_dispatch [where
        JSON_parse = "\<lambda>ev. Inr (JObj [(''message_type'', JStr ''FinalTranscript''), (''text'', JStr ''hello'')])"
        and ev = "''frame 1''"
        and kvs = "[(''message_type'', JStr ''FinalTranscript''), (''text'', JStr ''hello'')]"]
    by simp
  have b: "onmessage (\<lambda>ev. Inr (JObj [(''message_type'', JStr ''PartialTranscript''), (''text'', JStr ''hel'')]))
     ''frame 2'' = Inr (Some (JStr ''hel'', False))"
    using onmessage_dispatch [where
        JSON_parse = "\<lambda>ev. Inr (JObj [(''message_type'', JStr ''PartialTranscript''), (''text'', JStr ''hel'')])"
        and ev = "''frame 2''"
        and kvs = "[(''message_type'', JStr ''PartialTranscript''), (''text'', JStr ''hel'')]"]
    by simp
  have c: "onmessage (\<lambda>ev. Inr (JObj [(''message_type'', JStr ''SessionBegins'')])) ''frame 3'' = Inr None"
    using onmessage_dispatch [where
        JSON_parse = "\<lambda>ev. Inr (JObj [(''message_type'', JStr ''SessionBegins'')])"
        and ev = "''frame 3''" and kvs = "[(''message_type'', JStr ''SessionBegins'')]"]
    by simp
  have d: "onmessage (\<lambda>ev. Inr (JNum 7)) ''7'' = Inr None"
    using onmessage_dispatch [where JSON_parse = "\<lambda>ev. Inr (JNum 7)" and ev = "''7''" and q = 7]
    by simp
  have e: "onmessage (\<lambda>ev. Inr (JBool True)) ''true'' = Inr None"
    using onmessage_dispatch [where JSON_parse = "\<lambda>ev. Inr (JBool True)" and ev = "''true''"
        and b = True]
    by simp
  have f: "onmessage (\<lambda>ev. Inr (JStr ''pong'')) ''pong, quoted'' = Inr None"
    using onmessage_dispatch [where JSON_parse = "\<lambda>ev. Inr (JStr ''pong'')"
        and ev = "''pong, quoted''" and s = "''pong''"]
    by simp
  have g: "onmessage (\<lambda>ev. Inr (JArr [])) ''[]'' = Inr None"
    using onmessage_dispatch [where JSON_parse = "\<lambda>ev. Inr (JArr [])" and ev = "''[]''"
        and xs = "[]"]
    by simp
  show ?thesis using a b c d e f g by simp
qed

text \<open>
  Claim C7 as stated fails on a final transcript whose text is empty, which the service
  sends for silence: the guard \<open>&& data.text\<close> drops it and \<open>onTranscript\<close> is not called.
\<close>

theorem onmessage_final_without_text:
  "onmessage (\<lambda>ev. Inr silent_final) ''frame'' = Inr None"
  by (simp add: onmessage_def silent_final_def transcript_of_kind_JObj)

text \<open>
  The handler has no \<open>try\<close>: the message \<open>null\<close> and a message that is not JSON raise.
\<close>

lemma onmessage_null_throws:
  "onmessage (\<lambda>ev. Inr JNull) ''null'' =
     Inl (TypeError ''Cannot read properties of null (reading message_type)'')"
  by (simp add: onmessage_def transcript_of_kind_def)

lemma onmessage_unparsable_throws:
  "onmessage (\<lambda>ev. Inl (SyntaxError ''Unexpected token'')) ''pong'' =
     Inl (SyntaxError ''Unexpected token'')"
  by (simp add: onmessage_def)

lemma length_end_tracks:
  "length (foldl (\<lambda>ts i. ts[i := Ended]) ts idx) = length ts"
  by (induction idx arbitrary: ts) simp_all

lemma nth_end_tracks:
  "j < length ts \<Longrightarrow>
     foldl (\<lambda>ts i. ts[i := Ended]) ts idx ! j = (if j \<in> set idx then Ended else ts ! j)"
  by (induction idx arbitrary: ts) (auto simp: nth_list_update)

lemma end_all_tracks:
  "foldl (\<lambda>ts i. ts[i := Ended]) ts [0..<length ts] = map (\<lambda>t. Ended) ts"
  by (rule nth_equalityI) (simp_all add: length_end_tracks nth_end_tracks)

lemma stop_tracks_returns:
  "stop_tracks (\<lambda>c. None) idx s =
     (s\<lparr>stream := map_option (\<lambda>ts. foldl (\<lambda>ts i. ts[i := Ended]) ts idx) (stream s),
        calls := calls s @ map Track_stop idx\<rparr>, None)"
proof (induction idx arbitrary: s)
  case Nil
  then show ?case by (simp add: skip_def option.map_ident)
next
  case (Cons i idx)
  show ?case
    by (simp add: and_then_def platform_call_def Cons.IH option.map_comp comp_def)
qed

lemma stop_returns: "stop (\<lambda>c. None) s = (stopped s, None)"
proof (cases "stream s")
  case None
  then show ?thesis
    by (simp add: stop_def and_then_def platform_call_def skip_def stopped_def stop_calls_def)
next
  case (Some ts)
  then show ?thesis
    by (simp add: stop_def and_then_def platform_call_def skip_def stopped_def stop_calls_def
        stop_tracks_returns end_all_tracks)
qed

text \<open>
  Claim C6, as \<open>stop\<close> has it. When no platform call throws, \<open>stop\<close> returns normally
  having made, in this order, the calls of \<^const>\<open>stop_calls\<close>: \<open>send\<close> of the termination
  message only if the socket is open, \<open>close\<close> of the socket, \<open>disconnect\<close> of the processor
  and of the source, \<open>close\<close> of the audio context (each only if the variable is set), and
  \<open>stop\<close> of every track of the stream. It leaves every track ended. A second \<open>stop\<close>
  returns normally too, sends no termination message (the socket is no longer open) and
  changes no track: each live track is ended once, by the first \<open>stop\<close>.
\<close>

theorem stop_twice:
  "stop (\<lambda>c. None) s = (stopped s, None) \<and>
   stop (\<lambda>c. None) (stopped s) = (stopped (stopped s), None) \<and>
   calls (stopped s) = calls s @ stop_calls s \<and>
   stream (stopped s) = map_option (map (\<lambda>t. Ended)) (stream s) \<and>
   stream (stopped (stopped s)) = stream (stopped s) \<and>
   readyState (stopped s) \<noteq> OPEN \<and>
   calls (stopped (stopped s)) = calls s @ stop_calls s @ stop_calls (stopped s)"
proof -
  have "stream (stopped (stopped s)) = stream (stopped s)"
    by (simp add: stopped_def option.map_comp comp_def)
  moreover have "readyState (stopped s) \<noteq> OPEN"
    by (simp add: stopped_def)
  moreover have "calls (stopped (stopped s)) = calls s @ stop_calls s @ stop_calls (stopped s)"
    by (simp add: stopped_def)
  moreover have "calls (stopped s) = calls s @ stop_calls s"
    by (simp add: stopped_def)
  moreover have "stream (stopped s) = map_option (map (\<lambda>t. Ended)) (stream s)"
    by (simp add: stopped_def)
  ultimately show ?thesis
    by (simp add: stop_returns)
qed

theorem stop_twice_witness:
  "stop (\<lambda>c. None) streaming_session =
     (\<lparr>readyState = CLOSING, processor = Some False, source = Some False,
       audioContext = Some Closed, stream = Some [Ended, Ended],
       calls = [Socket_send terminate_session, Socket_close, Processor_disconnect,
                Source_disconnect, AudioContext_close, Track_stop 0, Track_stop 1]\<rparr>, None) \<and>
   stop (\<lambda>c. None) (stopped streaming_session) =
     (\<lparr>readyState = CLOSING, processor = Some False, source = Some False,
       audioContext = Some Closed, stream = Some [Ended, Ended],
       calls = [Socket_send terminate_session, Socket_close, Processor_disconnect,
                Source_disconnect, AudioContext_close, Track_stop 0, Track_stop 1,
                Socket_close, Processor_disconnect, Source_disconnect, AudioContext_close,
                Track_stop 0, Track_stop 1]\<rparr>, None)"
proof -
  have u: "[0..<2] = [0, 1]" by (simp add: upt_rec)
  show ?thesis
    using stop_twice [of streaming_session]
    by (simp add: stopped_def stop_calls_def streaming_session_def u)
qed

text \<open>
  Claim C6 as stated fails where a cleanup step throws: \<open>stop\<close> has no \<open>try\<close>, so the
  exception leaves it and the steps after the failed one are not run. Here
  \<open>processor.disconnect()\<close> throws, and the source, the audio context and both tracks are
  left as they were.
\<close>

theorem stop_aborts_when_a_step_throws:
  "stop (\<lambda>c. if c = Processor_disconnect then Some (Error ''InvalidAccessError'') else None)
     streaming_session =
     (\<lparr>readyState = CLOSING, processor = Some True, source = Some True,
       audioContext = Some Running, stream = Some [Live, Live],
       calls = [Socket_send terminate_session, Socket_close, Processor_disconnect]\<rparr>,
      Some (Error ''InvalidAccessError''))"
  by (auto simp: stop_def and_then_def platform_call_def skip_def streaming_session_def Let_def)

section \<open>The content transformation client\<close>

text \<open>
  Claim C8 fails on a key that names a member of \<open>Object.prototype\<close>: \<open>toneMap['toString']\<close>
  is the inherited function, which is truthy, so \<open>|| toneMap.professional\<close> does not apply
  and the instruction is not the professional text; likewise \<open>languageMap['constructor']\<close>.
\<close>

theorem toneInstruction_inherited_key:
  "toneInstruction \<lparr>summaryLength = None, customPrompt = None, tone = Some ''toString'',
       language = None, styleGuide = None\<rparr> = Proto ''toString'' \<and>
   languageInstruction \<lparr>summaryLength = None, customPrompt = None, tone = None,
       language = Some ''constructor'', styleGuide = None\<rparr> = Proto ''constructor''"
  by (simp add: toneInstruction_def languageInstruction_def record_get_def toneMap_def
      languageMap_def or_default_def Object_prototype_def)

text \<open>
  On every other key outside the maps, and when the option is absent or empty, the
  fallback is the professional tone and English.
\<close>

lemma toneInstruction_fallback:
  "tone opts = None \<or> tone opts = Some '''' \<or>
   (tone opts = Some key \<and> key \<notin> set [''casual'', ''friendly''] \<and> key \<notin> set Object_prototype) \<Longrightarrow>
     toneInstruction opts = Str ''Use a professional, business-appropriate tone.''"
  by (auto simp: toneInstruction_def record_get_def toneMap_def or_default_def split: if_splits)

lemma languageInstruction_fallback:
  "language opts = None \<or> language opts = Some '''' \<or>
   (language opts = Some key \<and> key \<notin> set [''zh'', ''ms'', ''ta''] \<and> key \<notin> set Object_prototype) \<Longrightarrow>
     languageInstruction opts = Str ''Write the output in English.''"
  by (auto simp: languageInstruction_def record_get_def languageMap_def or_default_def
      split: if_splits)

text \<open>
  Claim C9. \<open>transcribeAudioFile\<close> submits the base64 payload inline with its MIME type,
  followed by the fixed instruction asking for a word-for-word transcript and no summary.
  It returns the text of the provider's response; when that text is absent or empty it
  returns the literal \<open>Transcription failed.\<close> and does not throw. An exception of the
  provider's call is not caught.
\<close>

theorem transcribeAudioFile_text_or_fallback:
  "parts (transcript_request key env base64Data mime) =
     [InlineData mime base64Data,
      TextPart ''Please provide a highly accurate word-for-word transcript of this audio. No summary, just text.''] \<and>
   (generateContent (transcript_request key env base64Data mime) = Inr None \<longrightarrow>
      transcribeAudioFile generateContent env base64Data mime key =
        Inr ''Transcription failed.'') \<and>
   (generateContent (transcript_request key env base64Data mime) = Inr (Some '''') \<longrightarrow>
      transcribeAudioFile generateContent env base64Data mime key =
        Inr ''Transcription failed.'') \<and>
   (generateContent (transcript_request key env base64Data mime) = Inr (Some t) \<and> t \<noteq> '''' \<longrightarrow>
      transcribeAudioFile generateContent env base64Data mime key = Inr t) \<and>
   (generateContent (transcript_request key env base64Data mime) = Inl e \<longrightarrow>
      transcribeAudioFile generateContent env base64Data mime key = Inl e)"
  by (simp add: transcribeAudioFile_def or_default_def transcript_request_def)

theorem transcribeAudioFile_text_or_fallback_witness:
  "transcribeAudioFile (\<lambda>req. Inr None) None ''UklGRg=='' ''audio/wav'' (Some ''key'') =
     Inr ''Transcription failed.'' \<and>
   transcribeAudioFile (\<lambda>req. Inr (Some '''')) None ''UklGRg=='' ''audio/wav'' (Some ''key'') =
     Inr ''Transcription failed.'' \<and>
   transcribeAudioFile
     (\<lambda>req. Inr (if parts req = [InlineData ''audio/wav'' ''UklGRg=='',
                TextPart ''Please provide a highly accurate word-for-word transcript of this audio. No summary, just text.'']
              then Some ''hello world'' else None))
     None ''UklGRg=='' ''audio/wav'' (Some ''key'') = Inr ''hello world'' \<and>
   transcribeAudioFile (\<lambda>req. Inl (Error ''503 Service Unavailable'')) None ''UklGRg==''
     ''audio/wav'' (Some ''key'') = Inl (Error ''503 Service Unavailable'')"
proof -
  have a: "transcribeAudioFile (\<lambda>req. Inr None) None ''UklGRg=='' ''audio/wav'' (Some ''key'') =
     Inr ''Transcription failed.''"
    using transcribeAudioFile_text_or_fallback [where generateContent = "\<lambda>req. Inr None"]
    by simp
  have b: "transcribeAudioFile (\<lambda>req. Inr (Some '''')) None ''UklGRg=='' ''audio/wav'' (Some ''key'') =
     Inr ''Transcription failed.''"
    using transcribeAudioFile_text_or_fallback [where generateContent = "\<lambda>req. Inr (Some '''')"]
    by simp
  have c: "transcribeAudioFile
     (\<lambda>req. Inr (if parts req = [InlineData ''audio/wav'' ''UklGRg=='',
                TextPart ''Please provide a highly accurate word-for-word transcript of this audio. No summary, just text.'']
              then Some ''hello world'' else None))
     None ''UklGRg=='' ''audio/wav'' (Some ''key'') = Inr ''hello world''"
    using transcribeAudioFile_text_or_fallback [where generateContent = "\<lambda>req. Inr (if parts req = [InlineData ''audio/wav'' ''UklGRg=='',
                TextPart ''Please provide a highly accurate word-for-word transcript of this audio. No summary, just text.'']
              then Some ''hello world'' else None)"
        and t = "''hello world''" and env = None and key = "Some ''key''"
        and mime = "''audio/wav''" and base64Data = "''UklGRg==''"]
    by simp
  have d: "transcribeAudioFile (\<lambda>req. Inl (Error ''503 Service Unavailable'')) None ''UklGRg==''
     ''audio/wav'' (Some ''key'') = Inl (Error ''503 Service Unavailable'')"
    using transcribeAudioFile_text_or_fallback [where
        generateContent = "\<lambda>req. Inl (Error ''503 Service Unavailable'')"
        and e = "Error ''503 Service Unavailable''"]
    by simp
  show ?thesis using a b c d by simp
qed

section \<open>The audio encoders\<close>

subsection \<open>The two sample conversions\<close>

lemma truncate_to_zero_near: "\<bar>of_int (truncate_to_zero q) - q\<bar> < 1"
  unfolding truncate_to_zero_def by (auto; linarith)

lemma truncate_to_zero_mono:
  assumes "p \<le> q"
  shows "truncate_to_zero p \<le> truncate_to_zero q"
proof (cases "q < 0")
  case True
  then show ?thesis
    using assms by (simp add: truncate_to_zero_def ceiling_mono)
next
  case q: False
  show ?thesis
  proof (cases "p < 0")
    case True
    then have "\<lceil>p\<rceil> \<le> 0" by (simp add: ceiling_le_zero)
    moreover have "0 \<le> \<lfloor>q\<rfloor>" using q by simp
    ultimately have "\<lceil>p\<rceil> \<le> \<lfloor>q\<rfloor>" by (rule order_trans)
    then show ?thesis using True q by (simp add: truncate_to_zero_def)
  next
    case False
    then show ?thesis
      using assms q by (simp add: truncate_to_zero_def floor_mono)
  qed
qed

lemma truncate_to_zero_of_int [simp]: "truncate_to_zero (of_int z) = z"
  by (simp add: truncate_to_zero_def)

lemma truncate_to_zero_bounds:
  assumes "of_int lo \<le> q" "q \<le> of_int hi"
  shows "lo \<le> truncate_to_zero q \<and> truncate_to_zero q \<le> hi"
  using truncate_to_zero_mono [OF assms(1)] truncate_to_zero_mono [OF assms(2)] by simp

lemma sint_int16: "- 32768 \<le> z \<Longrightarrow> z < 32768 \<Longrightarrow> sint (word_of_int z :: 16 word) = z"
  by (simp add: sint_sbintrunc' signed_take_bit_int_eq_self)

lemma sint_createPcmBlob_sample:
  "sint (createPcmBlob_sample (Fin q)) = truncate_to_zero (max (- 1) (min 1 q) * 32767)"
proof -
  let ?v = "max (- 1) (min 1 q) * 32767"
  have "of_int (- 32767) \<le> ?v" "?v \<le> of_int 32767" by (auto simp: max_def min_def)
  then have "- 32767 \<le> truncate_to_zero ?v \<and> truncate_to_zero ?v \<le> 32767"
    by (rule truncate_to_zero_bounds)
  then show ?thesis
    by (simp add: createPcmBlob_sample_def sint_int16)
qed

lemma sint_onaudioprocess_sample:
  "sint (onaudioprocess_sample (Fin q)) =
     truncate_to_zero (max (- 32768) (min 32767 (q * 32768)))"
proof -
  let ?v = "max (- 32768) (min 32767 (q * 32768))"
  have "of_int (- 32768) \<le> ?v" "?v \<le> of_int 32767" by (auto simp: max_def min_def)
  then have "- 32768 \<le> truncate_to_zero ?v \<and> truncate_to_zero ?v \<le> 32767"
    by (rule truncate_to_zero_bounds)
  then show ?thesis
    by (simp add: onaudioprocess_sample_def sint_int16)
qed

lemma truncate_to_zero_step:
  assumes "p \<le> q" "q \<le> p + 1"
  shows "truncate_to_zero p \<le> truncate_to_zero q \<and> truncate_to_zero q \<le> truncate_to_zero p + 1"
proof -
  have "truncate_to_zero (p + 1) \<le> truncate_to_zero p + 1"
    unfolding truncate_to_zero_def by (auto; linarith)
  then show ?thesis
    using truncate_to_zero_mono [OF assms(1)] truncate_to_zero_mono [OF assms(2)] by linarith
qed

lemma samples_differ_by_one_Fin:
  "\<bar>sint (onaudioprocess_sample (Fin q)) - sint (createPcmBlob_sample (Fin q))\<bar> \<le> 1"
proof -
  let ?r = "max (- 32768) (min 32767 (q * 32768))"
  let ?b = "max (- 1) (min 1 q) * 32767"
  consider "1 \<le> q" | "q \<le> - 1" | "0 \<le> q" "q < 1" | "- 1 < q" "q < 0" by linarith
  then have "\<bar>truncate_to_zero ?r - truncate_to_zero ?b\<bar> \<le> 1"
  proof cases
    case 1
    then have "?r = of_int 32767" "?b = of_int 32767" by (auto simp: max_def min_def)
    then show ?thesis by (simp only: truncate_to_zero_of_int; simp)
  next
    case 2
    then have "?r = of_int (- 32768)" "?b = of_int (- 32767)" by (auto simp: max_def min_def)
    then show ?thesis by (simp only: truncate_to_zero_of_int; simp)
  next
    case 3
    then have "?b \<le> ?r" "?r \<le> ?b + 1" by (auto simp: max_def min_def)
    from truncate_to_zero_step [OF this] show ?thesis by linarith
  next
    case 4
    then have "?r \<le> ?b" "?b \<le> ?r + 1" by (auto simp: max_def min_def)
    from truncate_to_zero_step [OF this] show ?thesis by linarith
  qed
  then show ?thesis
    by (simp only: sint_createPcmBlob_sample sint_onaudioprocess_sample)
qed

text \<open>
  Claim C10, as the two encoders have it. The conversion in \<open>onaudioprocess\<close> scales by
  \<open>32768\<close> and then clamps to \<open>[-32768, 32767]\<close>; the one in \<open>createPcmBlob\<close> clamps to
  \<open>[-1, 1]\<close> and then scales by \<open>32767\<close>. On every sample the two 16-bit values differ by at
  most one; they are equal on \<open>NaN\<close>, on zero and on plus infinity.
\<close>

theorem encoders_agree_within_one:
  "\<bar>sint (onaudioprocess_sample x) - sint (createPcmBlob_sample x)\<bar> \<le> 1 \<and>
   onaudioprocess_sample NaN = createPcmBlob_sample NaN \<and>
   onaudioprocess_sample (Fin 0) = createPcmBlob_sample (Fin 0) \<and>
   onaudioprocess_sample PosInf = createPcmBlob_sample PosInf"
proof -
  have "\<bar>sint (onaudioprocess_sample x) - sint (createPcmBlob_sample x)\<bar> \<le> 1"
  proof (cases x)
    case (Fin q)
    then show ?thesis by (simp only: samples_differ_by_one_Fin)
  qed (simp_all add: onaudioprocess_sample_def createPcmBlob_sample_def truncate_to_zero_def)
  then show ?thesis
    by (simp add: onaudioprocess_sample_def createPcmBlob_sample_def truncate_to_zero_def)
qed

text \<open>
  Claim C10 as stated fails: the two conversions are not the same function. The sample
  \<open>0.5\<close> becomes 16384 in \<open>onaudioprocess\<close> and 16383 in \<open>createPcmBlob\<close>.
\<close>

theorem encoders_differ_at_half:
  "sint (onaudioprocess_sample (Fin (1 / 2))) = 16384 \<and>
   sint (createPcmBlob_sample (Fin (1 / 2))) = 16383 \<and>
   onaudioprocess_sample (Fin (1 / 2)) \<noteq> createPcmBlob_sample (Fin (1 / 2))"
proof -
  have a: "sint (onaudioprocess_sample (Fin (1 / 2))) = 16384"
    by (simp add: sint_onaudioprocess_sample truncate_to_zero_def)
  have "\<lfloor>32767 / 2 :: rat\<rfloor> = 16383" by linarith
  then have b: "sint (createPcmBlob_sample (Fin (1 / 2))) = 16383"
    by (simp add: sint_createPcmBlob_sample truncate_to_zero_def)
  from a b have "onaudioprocess_sample (Fin (1 / 2)) \<noteq> createPcmBlob_sample (Fin (1 / 2))"
    by auto
  with a b show ?thesis by simp
qed

subsection \<open>Base64 and its inverse\<close>

lemma binary_string_foldl:
  "foldl (\<lambda>binary b. binary @ [fromCharCode b]) acc uint8 = acc @ map fromCharCode uint8"
  by (induction uint8 arbitrary: acc) simp_all

lemma binary_string_map: "binary_string uint8 = map fromCharCode uint8"
  by (simp add: binary_string_def binary_string_foldl)

lemma length_base64_alphabet: "length base64_alphabet = 64"
  by (simp add: base64_alphabet_def)

lemma distinct_base64_alphabet: "distinct base64_alphabet"
  by (simp add: base64_alphabet_def)

lemma pad_not_in_base64_alphabet: "CHR ''='' \<notin> set base64_alphabet"
  by (simp add: base64_alphabet_def)

lemma index_of_nth: "distinct xs \<Longrightarrow> n < length xs \<Longrightarrow> index_of (xs ! n) xs = Some n"
proof (induction xs arbitrary: n)
  case Nil
  then show ?case by simp
next
  case (Cons y ys)
  show ?case
  proof (cases n)
    case 0
    then show ?thesis by simp
  next
    case (Suc m)
    with Cons.prems have "ys ! m \<in> set ys" "y \<notin> set ys" by auto
    then have "ys ! m \<noteq> y" by auto
    then show ?thesis using Cons Suc by simp
  qed
qed

lemma base64_index_char: "n < 64 \<Longrightarrow> base64_index (base64_char n) = Some n"
  by (simp add: base64_index_def base64_char_def index_of_nth distinct_base64_alphabet
      length_base64_alphabet)

lemma base64_char_not_pad:
  assumes "n < 64"
  shows "base64_char n \<noteq> CHR ''=''"
proof -
  have "base64_alphabet ! n \<in> set base64_alphabet"
    using assms by (intro nth_mem) (simp add: length_base64_alphabet)
  then show ?thesis
    using pad_not_in_base64_alphabet unfolding base64_char_def by metis
qed

lemma sextet_bounds:
  fixes a b c :: nat
  assumes "a < 256" "b < 256" "c < 256"
  shows "a div 4 < 64" "(a mod 4) * 16 + b div 16 < 64" "(b mod 16) * 4 + c div 64 < 64"
    "c mod 64 < 64" "(a mod 4) * 16 < 64" "(b mod 16) * 4 < 64"
proof -
  have a4: "a mod 4 < 4" and b16: "b mod 16 < 16" by simp_all
  have bd: "b div 16 < 16" and cd: "c div 64 < 4" and ad: "a div 4 < 64"
    using assms by (simp_all add: div_less_iff_less_mult)
  show "a div 4 < 64" by (rule ad)
  show "(a mod 4) * 16 + b div 16 < 64" using a4 bd by linarith
  show "(b mod 16) * 4 + c div 64 < 64" using b16 cd by linarith
  show "c mod 64 < 64" by simp
  show "(a mod 4) * 16 < 64" using a4 by linarith
  show "(b mod 16) * 4 < 64" using b16 by linarith
qed

lemma sextet_values:
  fixes a b c :: nat
  assumes "b < 256" "c < 256"
  shows "(a div 4) * 4 + ((a mod 4) * 16 + b div 16) div 16 = a"
    "(((a mod 4) * 16 + b div 16) mod 16) * 16 + ((b mod 16) * 4 + c div 64) div 4 = b"
    "(((b mod 16) * 4 + c div 64) mod 4) * 64 + c mod 64 = c"
    "(a div 4) * 4 + ((a mod 4) * 16) div 16 = a"
    "(((a mod 4) * 16 + b div 16) mod 16) * 16 + ((b mod 16) * 4) div 4 = b"
proof -
  have bd: "b div 16 < 16" and cd: "c div 64 < 4"
    using assms by (simp_all add: div_less_iff_less_mult)
  have 1: "((a mod 4) * 16 + b div 16) div 16 = a mod 4" using bd by simp
  have 2: "((a mod 4) * 16 + b div 16) mod 16 = b div 16" using bd by simp
  have 3: "((b mod 16) * 4 + c div 64) div 4 = b mod 16" using cd by simp
  have 4: "((b mod 16) * 4 + c div 64) mod 4 = c div 64" using cd by simp
  show "(a div 4) * 4 + ((a mod 4) * 16 + b div 16) div 16 = a"
    by (simp only: 1) simp
  show "(((a mod 4) * 16 + b div 16) mod 16) * 16 + ((b mod 16) * 4 + c div 64) div 4 = b"
    by (simp only: 2 3) simp
  show "(((b mod 16) * 4 + c div 64) mod 4) * 64 + c mod 64 = c"
    by (simp only: 4) simp
  show "(a div 4) * 4 + ((a mod 4) * 16) div 16 = a"
    by simp
  show "(((a mod 4) * 16 + b div 16) mod 16) * 16 + ((b mod 16) * 4) div 4 = b"
    by (simp only: 2) simp
qed

lemma atob_group1:
  assumes "s1 < 64" "s2 < 64"
  shows "atob_bytes [base64_char s1, base64_char s2, CHR ''='', CHR ''=''] =
           Some [s1 * 4 + s2 div 16]"
  using assms by (simp add: base64_index_char)

lemma atob_group2:
  assumes "s1 < 64" "s2 < 64" "s3 < 64"
  shows "atob_bytes [base64_char s1, base64_char s2, base64_char s3, CHR ''=''] =
           Some [s1 * 4 + s2 div 16, (s2 mod 16) * 16 + s3 div 4]"
  using assms base64_char_not_pad [of s3] by (simp add: base64_index_char)

lemma atob_group3:
  assumes "s1 < 64" "s2 < 64" "s3 < 64" "s4 < 64" "atob_bytes cs = Some bytes"
  shows "atob_bytes ([base64_char s1, base64_char s2, base64_char s3, base64_char s4] @ cs) =
           Some ([s1 * 4 + s2 div 16, (s2 mod 16) * 16 + s3 div 4, (s3 mod 4) * 64 + s4] @ bytes)"
  using assms base64_char_not_pad [of s3] base64_char_not_pad [of s4]
  by (simp add: base64_index_char)

lemma atob_btoa_bytes:
  "(\<And>b. b \<in> set bytes \<Longrightarrow> b < 256) \<Longrightarrow> atob_bytes (btoa_bytes bytes) = Some bytes"
proof (induction bytes rule: btoa_bytes.induct)
  case 1
  then show ?case by simp
next
  case (2 a)
  then have a: "a < 256" by simp
  have "atob_bytes (btoa_bytes [a]) = Some [(a div 4) * 4 + ((a mod 4) * 16) div 16]"
    unfolding btoa_bytes.simps
    by (rule atob_group1 [OF sextet_bounds(1) [OF a a a] sextet_bounds(5) [OF a a a]])
  then show ?case
    by (simp only: sextet_values(4) [OF a a])
next
  case (3 a b)
  then have ab: "a < 256" "b < 256" by simp_all
  have "atob_bytes (btoa_bytes [a, b]) =
      Some [(a div 4) * 4 + ((a mod 4) * 16 + b div 16) div 16,
            (((a mod 4) * 16 + b div 16) mod 16) * 16 + ((b mod 16) * 4) div 4]"
    unfolding btoa_bytes.simps
    by (rule atob_group2 [OF sextet_bounds(1) [OF ab ab(1)] sextet_bounds(2) [OF ab ab(1)]
          sextet_bounds(6) [OF ab ab(1)]])
  then show ?case
    by (simp only: sextet_values(1,5) [OF ab(2) ab(2)])
next
  case (4 a b c rest)
  then have abc: "a < 256" "b < 256" "c < 256" by simp_all
  have rest: "atob_bytes (btoa_bytes rest) = Some rest"
    using 4 by simp
  have "atob_bytes (btoa_bytes (a # b # c # rest)) =
      Some ([(a div 4) * 4 + ((a mod 4) * 16 + b div 16) div 16,
             (((a mod 4) * 16 + b div 16) mod 16) * 16 + ((b mod 16) * 4 + c div 64) div 4,
             (((b mod 16) * 4 + c div 64) mod 4) * 64 + c mod 64] @ rest)"
    unfolding btoa_bytes.simps
    by (rule atob_group3 [OF sextet_bounds(1) [OF abc] sextet_bounds(2) [OF abc]
          sextet_bounds(3) [OF abc] sextet_bounds(4) [OF abc] rest])
  then show ?case
    by (simp only: sextet_values(1,2,3) [OF abc(2,3)] append_Cons append_Nil)
qed

lemma atob_btoa: "atob (btoa binary) = Some binary"
proof -
  have "atob_bytes (btoa_bytes (map of_char binary)) = Some (map of_char binary)"
    by (rule atob_btoa_bytes) auto
  then show ?thesis
    by (simp add: atob_def btoa_def comp_def)
qed

lemma of_char_fromCharCode: "of_char (fromCharCode b) = unat b"
proof -
  have "unat b < 256" using unsigned_less [of b] by simp
  then show ?thesis by (simp add: fromCharCode_def)
qed

subsection \<open>Decoding the blob\<close>

lemma sint_unat_int16:
  "sint w = (if unat w < 32768 then int (unat w) else int (unat w) - 65536)"
  for w :: "16 word"
proof -
  define n where "n = unat w"
  have lt: "n < 65536" unfolding n_def using unsigned_less [of w, where ?'a = nat] by simp
  have un: "uint w = int n" by (simp add: n_def)
  have "sint w = (uint w + 32768) mod 65536 - 32768"
    by (simp add: sint_uint signed_take_bit_eq_take_bit_shift take_bit_eq_mod)
  then have s: "sint w = (int n + 32768) mod 65536 - 32768"
    by (simp only: un)
  have "sint w = (if n < 32768 then int n else int n - 65536)"
  proof (cases "n < 32768")
    case True
    then have "(int n + 32768) mod 65536 = int n + 32768"
      by (intro mod_pos_pos_trivial) simp_all
    then show ?thesis using True s by simp
  next
    case False
    then have "(int n + 32768) mod 65536 = int n + 32768 - 65536"
      using lt by (simp add: mod_pos_geq)
    then show ?thesis using False s by simp
  qed
  then show ?thesis by (simp only: n_def)
qed

lemma int16_of_bytes_word:
  "int16_of_bytes (unat (ucast w :: 8 word)) (unat (ucast (drop_bit 8 w) :: 8 word)) = sint w"
  for w :: "16 word"
proof -
  have lt: "unat w < 65536" using unsigned_less [of w, where ?'a = nat] by simp
  have lo: "unat (ucast w :: 8 word) = unat w mod 256"
    by (simp add: unsigned_ucast_eq take_bit_eq_mod)
  have d: "unat (drop_bit 8 w) = unat w div 256"
    by (simp only: unat_drop_bit_eq) (simp add: drop_bit_eq_div)
  have "unat (ucast (drop_bit 8 w) :: 8 word) = unat (drop_bit 8 w) mod 256"
    by (simp only: unsigned_ucast_eq take_bit_eq_mod) simp
  then have hi: "unat (ucast (drop_bit 8 w) :: 8 word) = unat w div 256"
    using lt by (simp only: d) (simp add: div_less_iff_less_mult)
  have sum: "unat w mod 256 + 256 * (unat w div 256) = unat w" by simp
  show ?thesis
    by (simp only: int16_of_bytes_def lo hi sum sint_unat_int16)
qed

lemma pcm16le_Uint8Array:
  "pcm16le (map of_char (binary_string (Uint8Array int16))) = Some (map sint int16)"
proof (induction int16)
  case Nil
  then show ?case by (simp add: binary_string_map Uint8Array_def)
next
  case (Cons w ws)
  have "map of_char (binary_string (Uint8Array (w # ws))) =
      unat (ucast w :: 8 word) # unat (ucast (drop_bit 8 w) :: 8 word) #
        map of_char (binary_string (Uint8Array ws))"
    by (simp add: binary_string_map Uint8Array_def of_char_fromCharCode)
  then show ?case
    by (simp only: pcm16le.simps Cons.IH int16_of_bytes_word option.map list.map)
qed

lemma decode_pcm_createPcmBlob:
  "decode_pcm (data (createPcmBlob input)) = Some (map (\<lambda>x. sint (createPcmBlob_sample x)) input)"
  by (simp add: decode_pcm_def createPcmBlob_def Let_def atob_btoa pcm16le_Uint8Array comp_def)

lemma createPcmBlob_sample_near:
  "(case clamped_and_scaled x of
      None \<Rightarrow> sint (createPcmBlob_sample x) = 0
    | Some v \<Rightarrow> \<bar>of_int (sint (createPcmBlob_sample x)) - v\<bar> < 1)"
proof (cases x)
  case (Fin q)
  then show ?thesis
    using truncate_to_zero_near [of "max (- 1) (min 1 q) * 32767"]
    by (simp add: sint_createPcmBlob_sample)
qed (simp_all add: createPcmBlob_sample_def truncate_to_zero_def)

text \<open>
  Claim C2. For every buffer of samples, of any length, \<open>createPcmBlob\<close> returns the MIME
  type \<open>audio/pcm;rate=16000\<close> and a base64 string that decodes to as many little-endian
  signed 16-bit samples as the buffer has; each decoded sample is less than one unit away
  from the input sample clamped to \<open>[-1, 1]\<close> and scaled by \<open>32767\<close>. A \<open>NaN\<close> sample, which
  has no clamped value, is encoded as 0. The result is a function of the buffer alone, and
  the binary string is built one character per byte (\<^const>\<open>binary_string\<close>).
\<close>

theorem createPcmBlob_decodes:
  "mimeType (createPcmBlob input) = ''audio/pcm;rate=16000'' \<and>
   (\<exists>samples.
      decode_pcm (data (createPcmBlob input)) = Some samples \<and>
      samples = map (\<lambda>x. sint (createPcmBlob_sample x)) input \<and>
      length samples = length input \<and>
      (\<forall>i<length input.
         case clamped_and_scaled (input ! i) of
           None \<Rightarrow> samples ! i = 0
         | Some v \<Rightarrow> \<bar>of_int (samples ! i) - v\<bar> < 1))"
proof -
  have "mimeType (createPcmBlob input) = ''audio/pcm;rate=16000''"
    by (simp add: createPcmBlob_def Let_def)
  moreover have "\<forall>i<length input.
      case clamped_and_scaled (input ! i) of
        None \<Rightarrow> map (\<lambda>x. sint (createPcmBlob_sample x)) input ! i = 0
      | Some v \<Rightarrow> \<bar>of_int (map (\<lambda>x. sint (createPcmBlob_sample x)) input ! i) - v\<bar> < 1"
  proof (intro allI impI)
    fix i assume "i < length input"
    then have "map (\<lambda>x. sint (createPcmBlob_sample x)) input ! i =
        sint (createPcmBlob_sample (input ! i))"
      by (rule nth_map)
    then show "case clamped_and_scaled (input ! i) of
        None \<Rightarrow> map (\<lambda>x. sint (createPcmBlob_sample x)) input ! i = 0
      | Some v \<Rightarrow> \<bar>of_int (map (\<lambda>x. sint (createPcmBlob_sample x)) input ! i) - v\<bar> < 1"
      using createPcmBlob_sample_near [of "input ! i"] by (simp split: option.splits)
  qed
  ultimately show ?thesis
    using decode_pcm_createPcmBlob [of input] by simp
qed

theorem createPcmBlob_decodes_witness:
  "decode_pcm (data (createPcmBlob [Fin 0, Fin (1 / 2), Fin (- 1), Fin 2, NaN])) =
     Some [0, 16383, - 32767, 32767, 0] \<and>
   decode_pcm (data (createPcmBlob [])) = Some [] \<and>
   data (createPcmBlob []) = ''''"
proof -
  have h: "\<lfloor>32767 / 2 :: rat\<rfloor> = 16383" by linarith
  have s: "map (\<lambda>x. sint (createPcmBlob_sample x)) [Fin 0, Fin (1 / 2), Fin (- 1), Fin 2, NaN] =
      [0, 16383, - 32767, 32767, 0]"
    by (simp add: sint_createPcmBlob_sample truncate_to_zero_def h)
      (simp add: createPcmBlob_sample_def)
  have a: "decode_pcm (data (createPcmBlob [Fin 0, Fin (1 / 2), Fin (- 1), Fin 2, NaN])) =
      Some [0, 16383, - 32767, 32767, 0]"
    using createPcmBlob_decodes [of "[Fin 0, Fin (1 / 2), Fin (- 1), Fin 2, NaN]"] s
    by simp
  have b: "decode_pcm (data (createPcmBlob [])) = Some []"
    using createPcmBlob_decodes [of "[]"] by simp
  have c: "data (createPcmBlob []) = ''''"
    by (simp add: createPcmBlob_def Let_def Uint8Array_def binary_string_def btoa_def)
  show ?thesis using a b c by simp
qed

text \<open>The blob of a five-sample buffer, computed.\<close>

lemma createPcmBlob_example:
  "data (createPcmBlob [Fin 0, Fin (1 / 2), Fin (- 1), Fin 2, NaN]) = ''AAD/PwGA/38AAA==''"
  by code_simp

end
